theory Spec2Isabelle
  imports Complex_Main
begin

section \<open>Arrays\<close>

text \<open>
  The plotting helpers of \<^verbatim>\<open>examples/utils.py\<close> work on numpy arrays. An array is
  modelled the way numpy stores it: a shape and the flat data in row-major (C) order.
  Exceptions are values of \<open>py_error\<close>; a computation that may raise returns
  \<open>py_error + 'a\<close>, with \<open>Inl\<close> for the exception.
\<close>

datatype py_error =
    ValueError
  | TypeError
  | IndexError
  | UnboundLocalError
  | ZeroDivisionError
  | LibraryError string

record 'a ndarray =
  shape :: "nat list"
  data :: "'a list"

definition size_of :: "'a ndarray \<Rightarrow> nat" where
  "size_of a = prod_list (shape a)"

text \<open>
  Broadcasting on flat row-major data: \<open>tile m xs\<close> is \<open>xs\<close> laid out \<open>m\<close> times in a
  row (a new leading axis of length \<open>m\<close>), \<open>repeat_each r xs\<close> repeats every element
  \<open>r\<close> times in place (new trailing axes of total size \<open>r\<close>).
\<close>

definition tile :: "nat \<Rightarrow> 'a list \<Rightarrow> 'a list" where
  "tile m xs = concat (replicate m xs)"

definition repeat_each :: "nat \<Rightarrow> 'a list \<Rightarrow> 'a list" where
  "repeat_each r xs = concat (map (replicate r) xs)"

text \<open>
  \<^verbatim>\<open>np.meshgrid(*arrs, indexing='ij')\<close>: one array per input, all of shape
  \<open>(n1, ..., nk)\<close>; the \<open>i\<close>-th one holds \<open>arrs[i][j_i]\<close> at index \<open>(j1, ..., jk)\<close>.
  numpy reshapes the \<open>i\<close>-th input to \<open>(1, .., n_i, .., 1)\<close> and broadcasts it: in
  row-major order each element is repeated over the axes after \<open>i\<close> and the result is
  tiled over the axes before \<open>i\<close>.
\<close>

definition meshgrid_ij :: "'a list list \<Rightarrow> 'a ndarray list" where
  "meshgrid_ij arrs =
     (let lens = map length arrs
      in map (\<lambda>i. \<lparr>shape = lens,
                     data = tile (prod_list (take i lens))
                              (repeat_each (prod_list (drop (Suc i) lens)) (arrs ! i))\<rparr>)
             [0..<length arrs])"

text \<open>
  \<^verbatim>\<open>np.stack(grids, axis=-1)\<close>: raises \<open>ValueError\<close> on an empty list and on arrays
  of different shapes; otherwise the new last axis indexes the input arrays, so the flat
  data interleaves them element by element.
\<close>

definition stack_last :: "'a ndarray list \<Rightarrow> py_error + 'a ndarray" where
  "stack_last gs =
     (case gs of
        [] \<Rightarrow> Inl ValueError
      | g # _ \<Rightarrow>
          if \<exists>h \<in> set gs. shape h \<noteq> shape g then Inl ValueError
          else Inr \<lparr>shape = shape g @ [length gs],
                    data = concat (map (\<lambda>j. map (\<lambda>h. data h ! j) gs) [0..<size_of g])\<rparr>)"

text \<open>
  \<^verbatim>\<open>a.reshape(-1, k)\<close>: the flat data is kept; the unknown dimension is the size
  divided by \<open>k\<close>; \<open>ValueError\<close> when \<open>k\<close> is 0 or does not divide the size.
\<close>

definition reshape_rows :: "'a ndarray \<Rightarrow> nat \<Rightarrow> py_error + 'a ndarray" where
  "reshape_rows a k =
     (if k = 0 \<or> size_of a mod k \<noteq> 0 then Inl ValueError
      else Inr \<lparr>shape = [size_of a div k, k], data = data a\<rparr>)"

text \<open>
  \<^verbatim>\<open>
  def cart_prod(*arrs):
      grids = np.meshgrid(*arrs, indexing='ij')
      return np.stack(grids, axis=-1).reshape(-1, len(arrs))
  \<close>
\<close>

definition cart_prod :: "'a list list \<Rightarrow> py_error + 'a ndarray" where
  "cart_prod arrs =
     (case stack_last (meshgrid_ij arrs) of
        Inl e \<Rightarrow> Inl e
      | Inr stacked \<Rightarrow> reshape_rows stacked (length arrs))"

text \<open>The rows of a two-dimensional array, read off its flat data.\<close>

definition rows_of :: "'a ndarray \<Rightarrow> 'a list list" where
  "rows_of a =
     (case shape a of
        [r, c] \<Rightarrow> map (\<lambda>i. take c (drop (i * c) (data a))) [0..<r]
      | _ \<Rightarrow> [])"

text \<open>
  The order the specification asks for, written as the specification words it: the
  tuples visited by nested loops, the first array being the outermost loop variable.
\<close>

fun nested_loop_rows :: "'a list list \<Rightarrow> 'a list list" where
  "nested_loop_rows [] = [[]]"
| "nested_loop_rows (xs # xss) =
     concat (map (\<lambda>x. map (Cons x) (nested_loop_rows xss)) xs)"

section \<open>Further array operations\<close>

text \<open>
  A one-dimensional array holding the given values (what \<^verbatim>\<open>np.linspace\<close> returns,
  what \<^verbatim>\<open>np.asanyarray\<close> makes of a sequence).
\<close>

definition array1 :: "'a list \<Rightarrow> 'a ndarray" where
  "array1 xs = \<lparr>shape = [length xs], data = xs\<rparr>"

text \<open>
  \<^verbatim>\<open>np.linspace(start, stop, num)\<close>: \<open>num\<close> evenly spaced values from \<open>start\<close> to
  \<open>stop\<close>, both included; \<open>ValueError\<close> for a negative \<open>num\<close>. The values are real
  numbers here: the rounding of floating-point arithmetic is not modelled, and nothing
  proved below depends on the values, only on how many there are.
\<close>

definition linspace :: "real \<Rightarrow> real \<Rightarrow> int \<Rightarrow> py_error + real list" where
  "linspace start stop num =
     (if num < 0 then Inl ValueError
      else if num = 1 then Inr [start]
      else Inr (map (\<lambda>i. start + real i * ((stop - start) / real (nat num - 1)))
                    [0..<nat num]))"

text \<open>
  \<^verbatim>\<open>a.reshape(-1)\<close> flattens, \<^verbatim>\<open>a.reshape(r, c)\<close> raises \<open>ValueError\<close> unless the
  array has \<open>r * c\<close> entries. \<open>reshape_square\<close> is \<^verbatim>\<open>a.reshape(num_points, num_points)\<close>
  with \<open>num_points\<close> as the function holds it: \<open>None\<close> is a \<open>TypeError\<close>, and a negative
  number twice is a \<open>ValueError\<close> (only one dimension may be left open).
\<close>

definition flatten :: "'a ndarray \<Rightarrow> 'a ndarray" where
  "flatten a = \<lparr>shape = [size_of a], data = data a\<rparr>"

definition reshape2 :: "'a ndarray \<Rightarrow> nat \<Rightarrow> nat \<Rightarrow> py_error + 'a ndarray" where
  "reshape2 a r c =
     (if size_of a = r * c then Inr \<lparr>shape = [r, c], data = data a\<rparr> else Inl ValueError)"

definition reshape_square :: "'a ndarray \<Rightarrow> int option \<Rightarrow> py_error + 'a ndarray" where
  "reshape_square a n =
     (case n of
        None \<Rightarrow> Inl TypeError
      | Some k \<Rightarrow> if k < 0 then Inl ValueError else reshape2 a (nat k) (nat k))"

text \<open>
  \<^verbatim>\<open>np.meshgrid(xs, ys)\<close> with the default \<open>xy\<close> indexing: two arrays of shape
  \<open>(len(ys), len(xs))\<close>, the first repeating \<open>xs\<close> along every row, the second holding
  \<open>ys[i]\<close> all along row \<open>i\<close>.
\<close>

definition meshgrid_xy :: "'a list \<Rightarrow> 'a list \<Rightarrow> 'a ndarray \<times> 'a ndarray" where
  "meshgrid_xy xs ys =
     (\<lparr>shape = [length ys, length xs], data = tile (length ys) xs\<rparr>,
      \<lparr>shape = [length ys, length xs], data = repeat_each (length xs) ys\<rparr>)"

text \<open>
  \<^verbatim>\<open>points[:, plot_coord]\<close>: the index \<open>plot_coord\<close> along the second axis, which is
  dropped from the shape. A negative index counts from the end; an index out of range and
  an array with fewer than two axes raise \<open>IndexError\<close>.
\<close>

definition take_column :: "'a ndarray \<Rightarrow> int \<Rightarrow> py_error + 'a ndarray" where
  "take_column a c =
     (case shape a of
        n # d # rest \<Rightarrow>
          (let j = (if c < 0 then c + int d else c); b = prod_list rest
           in if 0 \<le> j \<and> j < int d
              then Inr \<lparr>shape = n # rest,
                        data = concat (map (\<lambda>i. take b (drop ((i * d + nat j) * b) (data a)))
                                           [0..<n])\<rparr>
              else Inl IndexError)
      | _ \<Rightarrow> Inl IndexError)"

text \<open>
  \<^verbatim>\<open>a.shape[0]\<close> (\<open>IndexError\<close> on a zero-dimensional array), the column
  \<^verbatim>\<open>t_ * np.ones((n, 1))\<close>, and \<^verbatim>\<open>np.concatenate([a, b], axis=1)\<close> for two-dimensional
  arrays: \<open>ValueError\<close> unless both have two axes and the same number of rows.
\<close>

definition first_dim :: "'a ndarray \<Rightarrow> py_error + nat" where
  "first_dim a = (case shape a of [] \<Rightarrow> Inl IndexError | n # _ \<Rightarrow> Inr n)"

definition scaled_ones :: "real \<Rightarrow> nat \<Rightarrow> real ndarray" where
  "scaled_ones t n = \<lparr>shape = [n, 1], data = map (\<lambda>one. t * one) (replicate n 1)\<rparr>"

definition concatenate_axis1 :: "'a ndarray \<Rightarrow> 'a ndarray \<Rightarrow> py_error + 'a ndarray" where
  "concatenate_axis1 a b =
     (case (shape a, shape b) of
        ([m, p], [n, q]) \<Rightarrow>
          if m = n
          then Inr \<lparr>shape = [m, p + q],
                    data = concat (map (\<lambda>i. take p (drop (i * p) (data a))
                                              @ take q (drop (i * q) (data b))) [0..<m])\<rparr>
          else Inl ValueError
      | _ \<Rightarrow> Inl ValueError)"

text \<open>
  \<^verbatim>\<open>true + confidence\<close> and \<^verbatim>\<open>true - confidence\<close> for a scalar \<open>confidence\<close>.
\<close>

definition plus_scalar :: "real ndarray \<Rightarrow> real \<Rightarrow> real ndarray" where
  "plus_scalar a c = \<lparr>shape = shape a, data = map (\<lambda>v. v + c) (data a)\<rparr>"

definition minus_scalar :: "real ndarray \<Rightarrow> real \<Rightarrow> real ndarray" where
  "minus_scalar a c = \<lparr>shape = shape a, data = map (\<lambda>v. v - c) (data a)\<rparr>"

section \<open>Collaborators and runs\<close>

text \<open>
  The functions call three collaborators: the model's \<open>solve\<close>, the ground-truth function
  \<open>solution\<close> (for \<open>plot_pair_1d\<close>) and the plotting library. A call to the plotting
  library is recorded with the arguments that carry data; constant styling arguments (font
  sizes, line widths, strides) are left out. \<open>fetches\<close> is opaque to this code.
\<close>

type_synonym fetches = "string option"

datatype label = Text string | Time_label real

datatype axes_ref = Gca_axis | Grid_axis int int | Subplot_axis nat

datatype plt_call =
    Plot "real ndarray list" string
  | Xlabel string
  | Ylabel string
  | Title string
  | Fill_between "real ndarray" "real ndarray" "real ndarray"
  | Legend int
  | Grid bool
  | Savefig string
  | Show
  | Imshow "real ndarray" string
  | Contourf "real ndarray" "real ndarray" "real ndarray" string
  | Colorbar
  | Figure "(int \<times> int) option"
  | Gca_3d
  | Subplots int int
  | Add_subplot int int nat bool
  | Ax_plot axes_ref "real ndarray" "real ndarray"
  | Ax_imshow axes_ref "real ndarray" string
  | Ax_contourf axes_ref "real ndarray" "real ndarray" "real ndarray" string
  | Ax_plot_surface axes_ref "real ndarray" "real ndarray" "real ndarray" string
  | Ax_set_title axes_ref label
  | Ax_set_xlabel axes_ref string
  | Ax_set_ylabel axes_ref string
  | Ax_set_ylim axes_ref real real
  | Ax_set_zlim axes_ref real real
  | Tight_layout
  | Suptitle string
  | Subplots_adjust

datatype call =
    Solve "real ndarray" fetches
  | Truth "real ndarray"
  | Plt plt_call

text \<open>
  The model is any object with a \<open>solve\<close> method; it returns an array or raises. The
  plotting library is given by the exception, if any, that each call raises.
\<close>

record model =
  solve :: "real ndarray \<Rightarrow> fetches \<Rightarrow> py_error + real ndarray"

type_synonym plt_lib = "plt_call \<Rightarrow> py_error option"

type_synonym truth_fn = "real ndarray \<Rightarrow> py_error + real ndarray"

type_synonym 'a run = "(py_error + 'a) \<times> call list"

text \<open>
  A run of a function: its outcome (\<open>Inl\<close> an exception, \<open>Inr\<close> the returned value) and
  the calls it made to its collaborators, in order. Sequencing stops at the first exception,
  as Python does in code without exception handlers: this file has none. A call that raises is
  still part of the trace.
\<close>

definition ret :: "'a \<Rightarrow> 'a run" where
  "ret x = (Inr x, [])"

definition raise_err :: "py_error \<Rightarrow> 'a run" where
  "raise_err e = (Inl e, [])"

definition lift :: "py_error + 'a \<Rightarrow> 'a run" where
  "lift r = (r, [])"

definition bind_run :: "'a run \<Rightarrow> ('a \<Rightarrow> 'b run) \<Rightarrow> 'b run" where
  "bind_run m f =
     (case m of
        (Inl e, tr) \<Rightarrow> (Inl e, tr)
      | (Inr x, tr) \<Rightarrow> (case f x of (r, tr') \<Rightarrow> (r, tr @ tr')))"

definition do_all :: "unit run list \<Rightarrow> unit run" where
  "do_all stmts = foldr (\<lambda>s k. bind_run s (\<lambda>_. k)) stmts (ret ())"

definition when_do :: "bool \<Rightarrow> unit run \<Rightarrow> unit run" where
  "when_do b s = (if b then s else ret ())"

fun for_each :: "('a \<Rightarrow> unit run) \<Rightarrow> 'a list \<Rightarrow> unit run" where
  "for_each body [] = ret ()"
| "for_each body (x # xs) = bind_run (body x) (\<lambda>_. for_each body xs)"

definition call_plt :: "plt_lib \<Rightarrow> plt_call \<Rightarrow> unit run" where
  "call_plt lib c = (case lib c of Some e \<Rightarrow> Inl e | None \<Rightarrow> Inr (), [Plt c])"

definition call_solve :: "model \<Rightarrow> real ndarray \<Rightarrow> fetches \<Rightarrow> real ndarray run" where
  "call_solve m g f = (solve m g f, [Solve g f])"

definition call_solution :: "truth_fn \<Rightarrow> real ndarray \<Rightarrow> real ndarray run" where
  "call_solution solution p = (solution p, [Truth p])"

text \<open>
  \<^verbatim>\<open>axes[wx, wy]\<close> on what \<^verbatim>\<open>plt.subplots(r, c)\<close> returned. With the default
  \<open>squeeze=True\<close> this is a single axes object for a 1 by 1 grid (indexing it is a
  \<open>TypeError\<close>), a one-dimensional array when one of \<open>r\<close>, \<open>c\<close> is 1 (two indices are
  an \<open>IndexError\<close>) and an \<open>r\<close> by \<open>c\<close> array otherwise, which raises \<open>IndexError\<close> for
  an index out of range. \<open>divmod i c\<close> is the pair \<^verbatim>\<open>i // c, i % c\<close>.
\<close>

definition axes_getitem :: "int \<Rightarrow> int \<Rightarrow> int \<Rightarrow> int \<Rightarrow> py_error + axes_ref" where
  "axes_getitem r c wx wy =
     (if r = 1 \<and> c = 1 then Inl TypeError
      else if r = 1 \<or> c = 1 then Inl IndexError
      else if 0 \<le> wx \<and> wx < r \<and> 0 \<le> wy \<and> wy < c then Inr (Grid_axis wx wy)
      else Inl IndexError)"

definition divmod :: "nat \<Rightarrow> int \<Rightarrow> py_error + int \<times> int" where
  "divmod i c = (if c = 0 then Inl ZeroDivisionError else Inr (int i div c, int i mod c))"

section \<open>The plotting functions\<close>

text \<open>
  \<^verbatim>\<open>
  def plot_loss(loss, color='powderblue'):
      plt.plot(loss, c=color)
      plt.xlabel('Iteration number', ...)
      plt.ylabel('Loss', ...)
      plt.title('Model loss', ...)
      plt.show()
  \<close>
\<close>

definition plot_loss :: "plt_lib \<Rightarrow> real ndarray \<Rightarrow> string \<Rightarrow> unit run" where
  "plot_loss lib loss color =
     do_all [call_plt lib (Plot [loss] color),
             call_plt lib (Xlabel ''Iteration number''),
             call_plt lib (Ylabel ''Loss''),
             call_plt lib (Title ''Model loss''),
             call_plt lib Show]"

text \<open>
  \<^verbatim>\<open>
  def plot_pair_1d(solution, model, points=None, plot_coord=None, xlabel=..., ylabel=...,
                   confidence=None, alpha=0.4, title='Solution against approximation',
                   loc=1, grid=True, save=False, path='pair.png'):
      points = points if points is not None else np.linspace(0, 1, 200).reshape(-1, 1)
      approxs = model.solve(points)
      points = points if plot_coord is None else points[:, plot_coord]
      true = solution(points).reshape(-1)
      plt.plot(points, true, 'b', linewidth=4, label='True solution', alpha=alpha + 0.15)
      plt.plot(points, approxs, 'r--', linewidth=5, label='Network approximation')
      plt.xlabel(xlabel, ...)
      plt.ylabel(ylabel, ...)
      plt.title(title, ...)
      if confidence is not None:
          plt.fill_between(points.reshape(-1), true - confidence, true + confidence,
                           alpha=alpha, label='Confidence')
      plt.legend(loc=loc)
      plt.grid(grid)
      if save:
          plt.savefig(path, dpi=300)
      plt.show()
  \<close>
  The keyword arguments are a record; \<open>confidence\<close> is a scalar.
\<close>

record pair_1d_args =
  points :: "real ndarray option"
  plot_coord :: "int option"
  xlabel :: string
  ylabel :: string
  confidence :: "real option"
  alpha :: real
  title :: string
  loc :: int
  grid :: bool
  save :: bool
  path :: string

definition plot_pair_1d ::
  "plt_lib \<Rightarrow> truth_fn \<Rightarrow> model \<Rightarrow> pair_1d_args \<Rightarrow> unit run" where
  "plot_pair_1d lib solution m a =
     bind_run (case pair_1d_args.points a of
                 Some p \<Rightarrow> ret p
               | None \<Rightarrow> bind_run (lift (linspace 0 1 200))
                           (\<lambda>xs. lift (reshape_rows (array1 xs) 1)))
       (\<lambda>points.
     bind_run (call_solve m points None)
       (\<lambda>approxs.
     bind_run (case plot_coord a of
                 None \<Rightarrow> ret points
               | Some c \<Rightarrow> lift (take_column points c))
       (\<lambda>points.
     bind_run (call_solution solution points)
       (\<lambda>sol.
     let true = flatten sol in
     do_all [call_plt lib (Plot [points, true] ''True solution''),
             call_plt lib (Plot [points, approxs] ''Network approximation''),
             call_plt lib (Xlabel (xlabel a)),
             call_plt lib (Ylabel (ylabel a)),
             call_plt lib (Title (pair_1d_args.title a)),
             (case confidence a of
                None \<Rightarrow> ret ()
              | Some c \<Rightarrow> call_plt lib (Fill_between (flatten points)
                                          (minus_scalar true c) (plus_scalar true c))),
             call_plt lib (Legend (loc a)),
             call_plt lib (Grid (pair_1d_args.grid a)),
             when_do (pair_1d_args.save a) (call_plt lib (Savefig (pair_1d_args.path a))),
             call_plt lib Show]))))"

text \<open>
  \<^verbatim>\<open>
  def plot_2d(model, mode='imshow', fetches=None, grid=None, cmap='viridis', title=...,
              xlim=(0, 1), ylim=(0, 1), num_points=None, save=False,
              path='approximation.png'):
      if mode == 'imshow':
          if grid is None:
              num_points = num_points or 80
              grid = cart_prod(np.linspace(*xlim, num_points), np.linspace(*ylim, num_points))
          approxs = model.solve(grid, fetches=fetches)
          plt.imshow(approxs.reshape(num_points, num_points), cmap=cmap)
      elif mode in ('contourf', '3d_view'):
          if grid is None:
              num_points = num_points or (80 if mode == 'contourf' else 20)
              xs = np.linspace(*xlim, num_points)
              ys = np.linspace(*ylim, num_points)
              xs_, ys_ = np.meshgrid(xs, ys)
              grid = cart_prod(xs, ys)
          zs_ = model.solve(grid).reshape(len(xs), len(ys))
          if mode == 'contourf':
              plt.contourf(xs_, ys_, zs_, cmap=cmap)
          else:
              fig = plt.figure()
              axis = fig.gca(projection='3d')
              axis.plot_surface(xs_, ys_, zs_, rstride=1, cstride=1, cmap=cmap, ...)
              axis.set_title(title, size=17)
              axis.set_xlabel(...)
              axis.set_ylabel(...)
      if mode in ('imshow', 'contourf'):
          plt.title(title, ...)
          plt.colorbar()
      if save:
          plt.savefig(path, dpi=300)
      if mode in ('3d_view', 'contourf'):
          plt.show()
  \<close>
  \<open>or_default n d\<close> is \<^verbatim>\<open>n or d\<close>: \<open>d\<close> when \<open>n\<close> is \<open>None\<close> or 0. In the second branch the
  locals \<open>xs\<close>, \<open>ys\<close>, \<open>xs_\<close>, \<open>ys_\<close> are bound only when \<open>grid\<close> is \<open>None\<close>; the model
  carries them as an optional tuple, and reading them unbound is \<open>UnboundLocalError\<close>.
  \<open>model.solve(grid)\<close> is evaluated before the arguments of \<open>reshape\<close>. The import of
  \<open>Axes3D\<close> in the last branch is left out. Names that end in an underscore in the source
  end in a prime here.
\<close>

record plot_2d_args =
  mode :: string
  fetches :: fetches
  grid :: "real ndarray option"
  cmap :: string
  title :: string
  xlim :: "real \<times> real"
  ylim :: "real \<times> real"
  num_points :: "int option"
  save :: bool
  path :: string

definition or_default :: "int option \<Rightarrow> int \<Rightarrow> int" where
  "or_default n d = (case n of None \<Rightarrow> d | Some k \<Rightarrow> if k = 0 then d else k)"

definition plot_2d :: "plt_lib \<Rightarrow> model \<Rightarrow> plot_2d_args \<Rightarrow> unit run" where
  "plot_2d lib m a =
     do_all
      [if plot_2d_args.mode a = ''imshow'' then
         bind_run (case plot_2d_args.grid a of
                     None \<Rightarrow>
                       (let n = or_default (plot_2d_args.num_points a) 80 in
                        bind_run (lift (linspace (fst (plot_2d_args.xlim a))
                                                 (snd (plot_2d_args.xlim a)) n))
                          (\<lambda>xs.
                        bind_run (lift (linspace (fst (plot_2d_args.ylim a))
                                                 (snd (plot_2d_args.ylim a)) n))
                          (\<lambda>ys.
                        bind_run (lift (cart_prod [xs, ys]))
                          (\<lambda>g. ret (g, Some n)))))
                   | Some g \<Rightarrow> ret (g, plot_2d_args.num_points a))
           (\<lambda>(grid, num_points).
         bind_run (call_solve m grid (plot_2d_args.fetches a))
           (\<lambda>approxs.
         bind_run (lift (reshape_square approxs num_points))
           (\<lambda>image. call_plt lib (Imshow image (plot_2d_args.cmap a)))))
       else if plot_2d_args.mode a \<in> {''contourf'', ''3d_view''} then
         bind_run (case plot_2d_args.grid a of
                     None \<Rightarrow>
                       (let n = or_default (plot_2d_args.num_points a)
                                  (if plot_2d_args.mode a = ''contourf'' then 80 else 20) in
                        bind_run (lift (linspace (fst (plot_2d_args.xlim a))
                                                 (snd (plot_2d_args.xlim a)) n))
                          (\<lambda>xs.
                        bind_run (lift (linspace (fst (plot_2d_args.ylim a))
                                                 (snd (plot_2d_args.ylim a)) n))
                          (\<lambda>ys.
                        bind_run (lift (cart_prod [xs, ys]))
                          (\<lambda>g. ret (g, Some (xs, ys, meshgrid_xy xs ys))))))
                   | Some g \<Rightarrow> ret (g, None))
           (\<lambda>(grid, locals).
         bind_run (call_solve m grid None)
           (\<lambda>solved.
         case locals of
           None \<Rightarrow> raise_err UnboundLocalError
         | Some (xs, ys, xs', ys') \<Rightarrow>
             bind_run (lift (reshape2 solved (length xs) (length ys)))
               (\<lambda>zs'.
             if plot_2d_args.mode a = ''contourf'' then
               call_plt lib (Contourf xs' ys' zs' (plot_2d_args.cmap a))
             else
               do_all [call_plt lib (Figure None),
                       call_plt lib Gca_3d,
                       call_plt lib (Ax_plot_surface Gca_axis xs' ys' zs'
                                       (plot_2d_args.cmap a)),
                       call_plt lib (Ax_set_title Gca_axis (Text (plot_2d_args.title a))),
                       call_plt lib (Ax_set_xlabel Gca_axis ''$x$''),
                       call_plt lib (Ax_set_ylabel Gca_axis ''$y$'')])))
       else ret (),
       when_do (plot_2d_args.mode a \<in> {''imshow'', ''contourf''})
         (do_all [call_plt lib (Title (plot_2d_args.title a)), call_plt lib Colorbar]),
       when_do (plot_2d_args.save a) (call_plt lib (Savefig (plot_2d_args.path a))),
       when_do (plot_2d_args.mode a \<in> {''3d_view'', ''contourf''}) (call_plt lib Show)]"

text \<open>
  \<^verbatim>\<open>
  def plot_sections_2d(model, timestamps=(0, 0.2, 0.4, 0.6, 0.7, 0.9), grid_size=(2, 3),
                       points=None, fetches=None, xlim=(0, 1), ylim=(0, 0.3), title=...,
                       save=False, path='sections.png'):
      points = points if points is not None else np.linspace(0, 1, 100).reshape(-1, 1)
      n_sections = len(timestamps)
      fig, axes = plt.subplots(*grid_size, figsize=(5 * grid_size[1], 5))
      for i, t_ in enumerate(timestamps):
          points_ = np.concatenate([points.reshape(-1, 1),
                                    t_ * np.ones((points.shape[0], 1))], axis=1)
          wx, wy = i // grid_size[1], i % grid_size[1]
          axes[wx, wy].plot(points.reshape(-1), model.solve(points_, fetches=fetches))
          axes[wx, wy].set_ylim(*ylim)
          axes[wx, wy].set_title(... % t_, size=22)
      fig.tight_layout()
      fig.suptitle(title, size=27)
      fig.subplots_adjust(top=0.82)
      if save:
          plt.savefig(path, dpi=300)
      plt.show()
  \<close>
  \<open>points_with_time\<close> is the array \<open>points_\<close>, \<open>section_2d\<close> the loop body: Python
  evaluates \<open>axes[wx, wy].plot\<close> before the arguments of the call, so the subscript is
  checked before \<open>model.solve\<close> is invoked. \<open>for_each\<close> is the loop.
\<close>

record sections_2d_args =
  timestamps :: "real list"
  grid_size :: "int \<times> int"
  points :: "real ndarray option"
  fetches :: fetches
  xlim :: "real \<times> real"
  ylim :: "real \<times> real"
  title :: string
  save :: bool
  path :: string

definition points_with_time :: "real ndarray \<Rightarrow> real \<Rightarrow> py_error + real ndarray" where
  "points_with_time pts t =
     (case reshape_rows pts 1 of
        Inl e \<Rightarrow> Inl e
      | Inr col \<Rightarrow>
          (case first_dim pts of
             Inl e \<Rightarrow> Inl e
           | Inr n \<Rightarrow> concatenate_axis1 col (scaled_ones t n)))"

definition section_2d ::
  "plt_lib \<Rightarrow> model \<Rightarrow> sections_2d_args \<Rightarrow> real ndarray \<Rightarrow> nat \<times> real \<Rightarrow> unit run" where
  "section_2d lib m a pts it =
     (case it of (i, t') \<Rightarrow>
        bind_run (lift (points_with_time pts t'))
          (\<lambda>points'.
        bind_run (lift (divmod i (snd (sections_2d_args.grid_size a))))
          (\<lambda>(wx, wy).
        do_all
          [bind_run (lift (axes_getitem (fst (sections_2d_args.grid_size a)) (snd (sections_2d_args.grid_size a)) wx wy))
             (\<lambda>ax.
           bind_run (call_solve m points' (sections_2d_args.fetches a))
             (\<lambda>solved. call_plt lib (Ax_plot ax (flatten pts) solved))),
           bind_run (lift (axes_getitem (fst (sections_2d_args.grid_size a)) (snd (sections_2d_args.grid_size a)) wx wy))
             (\<lambda>ax. call_plt lib (Ax_set_ylim ax (fst (sections_2d_args.ylim a))
                                               (snd (sections_2d_args.ylim a)))),
           bind_run (lift (axes_getitem (fst (sections_2d_args.grid_size a)) (snd (sections_2d_args.grid_size a)) wx wy))
             (\<lambda>ax. call_plt lib (Ax_set_title ax (Time_label t')))])))"

definition plot_sections_2d :: "plt_lib \<Rightarrow> model \<Rightarrow> sections_2d_args \<Rightarrow> unit run" where
  "plot_sections_2d lib m a =
     bind_run (case sections_2d_args.points a of
                 Some p \<Rightarrow> ret p
               | None \<Rightarrow> bind_run (lift (linspace 0 1 100))
                           (\<lambda>xs. lift (reshape_rows (array1 xs) 1)))
       (\<lambda>points.
     do_all [call_plt lib (Subplots (fst (sections_2d_args.grid_size a)) (snd (sections_2d_args.grid_size a))),
             for_each (section_2d lib m a points) (enumerate 0 (sections_2d_args.timestamps a)),
             call_plt lib Tight_layout,
             call_plt lib (Suptitle (sections_2d_args.title a)),
             call_plt lib Subplots_adjust,
             when_do (sections_2d_args.save a)
               (call_plt lib (Savefig (sections_2d_args.path a))),
             call_plt lib Show])"

text \<open>
  \<^verbatim>\<open>
  def plot_sections_3d(model, timestamps=(0, 0.2, 0.4, 0.6, 0.7, 0.9), grid_size=(2, 3),
                       mode='3d_view', fetches=None, xlim=(0, 1), ylim=(0, 1),
                       zlim=(-0.2, 0.2), num_points=None, title=..., cmap='viridis',
                       save=False, path='sections.png'):
      if num_points is None:
          if mode == 'imshow' or mode == 'contourf':
              num_points = 80
          else:
              num_points = 20
      xs = np.linspace(*xlim, num_points)
      ys = np.linspace(*ylim, num_points)
      grid = cart_prod(xs, ys)
      xs_, ys_ = np.meshgrid(xs, ys)
      fig = plt.figure(figsize=(grid_size[0]*7, grid_size[1]*3))
      for i, t_ in enumerate(timestamps):
          grid_ = np.concatenate([grid, t_ * np.ones((grid.shape[0], 1))], axis=1)
          if mode == '3d_view':
              ax = fig.add_subplot(*grid_size, i + 1, projection='3d')
          else:
              ax = fig.add_subplot(*grid_size, i + 1)
          zs_ = model.solve(grid_).reshape(len(xs), len(ys))
          if mode == 'imshow':
              ax.imshow(zs_, cmap=cmap)
          elif mode == 'contourf':
              ax.contourf(xs_, ys_, zs_, cmap=cmap)
          elif mode == '3d_view':
              ax.plot_surface(xs_, ys_, zs_, rstride=1, cstride=1, cmap=cmap, ...)
              ax.set_zlim(*zlim)
          ax.set_title(... % t_, size=17)
          ax.set_xlabel(...)
          ax.set_ylabel(...)
      fig.suptitle(title, size=20)
      if save:
          plt.savefig(path, dpi=300)
      plt.show()
  \<close>
  \<open>sections_3d_points\<close> is \<open>num_points\<close> after the first statement, \<open>with_time_column\<close>
  the array \<open>grid_\<close>, \<open>section_3d\<close> the loop body. The function never passes \<open>fetches\<close>
  on to \<open>solve\<close>.
\<close>

record sections_3d_args =
  timestamps :: "real list"
  grid_size :: "int \<times> int"
  mode :: string
  fetches :: fetches
  xlim :: "real \<times> real"
  ylim :: "real \<times> real"
  zlim :: "real \<times> real"
  num_points :: "int option"
  title :: string
  cmap :: string
  save :: bool
  path :: string

definition sections_3d_points :: "sections_3d_args \<Rightarrow> int" where
  "sections_3d_points a =
     (case sections_3d_args.num_points a of
        None \<Rightarrow> if sections_3d_args.mode a = ''imshow''
                    \<or> sections_3d_args.mode a = ''contourf'' then 80 else 20
      | Some k \<Rightarrow> k)"

definition with_time_column :: "real ndarray \<Rightarrow> real \<Rightarrow> py_error + real ndarray" where
  "with_time_column g t =
     (case first_dim g of
        Inl e \<Rightarrow> Inl e
      | Inr n \<Rightarrow> concatenate_axis1 g (scaled_ones t n))"

definition section_3d ::
  "plt_lib \<Rightarrow> model \<Rightarrow> sections_3d_args \<Rightarrow> real list \<Rightarrow> real list \<Rightarrow> real ndarray
   \<Rightarrow> real ndarray \<times> real ndarray \<Rightarrow> nat \<times> real \<Rightarrow> unit run" where
  "section_3d lib m a xs ys g mesh it =
     (case (it, mesh) of ((i, t'), (xs', ys')) \<Rightarrow>
        bind_run (lift (with_time_column g t'))
          (\<lambda>grid'.
        let ax = Subplot_axis (i + 1) in
        do_all
          [call_plt lib (Add_subplot (fst (sections_3d_args.grid_size a))
                           (snd (sections_3d_args.grid_size a)) (i + 1)
                           (sections_3d_args.mode a = ''3d_view'')),
           bind_run (call_solve m grid' None)
             (\<lambda>solved.
           bind_run (lift (reshape2 solved (length xs) (length ys)))
             (\<lambda>zs'.
           if sections_3d_args.mode a = ''imshow'' then
             call_plt lib (Ax_imshow ax zs' (sections_3d_args.cmap a))
           else if sections_3d_args.mode a = ''contourf'' then
             call_plt lib (Ax_contourf ax xs' ys' zs' (sections_3d_args.cmap a))
           else if sections_3d_args.mode a = ''3d_view'' then
             do_all [call_plt lib (Ax_plot_surface ax xs' ys' zs' (sections_3d_args.cmap a)),
                     call_plt lib (Ax_set_zlim ax (fst (zlim a)) (snd (zlim a)))]
           else ret ())),
           call_plt lib (Ax_set_title ax (Time_label t')),
           call_plt lib (Ax_set_xlabel ax ''$x$''),
           call_plt lib (Ax_set_ylabel ax ''$y$'')]))"

definition plot_sections_3d :: "plt_lib \<Rightarrow> model \<Rightarrow> sections_3d_args \<Rightarrow> unit run" where
  "plot_sections_3d lib m a =
     (let n = sections_3d_points a in
      bind_run (lift (linspace (fst (sections_3d_args.xlim a))
                               (snd (sections_3d_args.xlim a)) n))
        (\<lambda>xs.
      bind_run (lift (linspace (fst (sections_3d_args.ylim a))
                               (snd (sections_3d_args.ylim a)) n))
        (\<lambda>ys.
      bind_run (lift (cart_prod [xs, ys]))
        (\<lambda>grid.
      do_all [call_plt lib (Figure (Some (fst (sections_3d_args.grid_size a) * 7,
                                          snd (sections_3d_args.grid_size a) * 3))),
              for_each (section_3d lib m a xs ys grid (meshgrid_xy xs ys))
                (enumerate 0 (sections_3d_args.timestamps a)),
              call_plt lib (Suptitle (sections_3d_args.title a)),
              when_do (sections_3d_args.save a)
                (call_plt lib (Savefig (sections_3d_args.path a))),
              call_plt lib Show]))))"

section \<open>What a run did\<close>

text \<open>
  The invocations of \<open>model.solve\<close> in a trace, with their arguments, in order.
\<close>

definition solve_calls :: "call list \<Rightarrow> (real ndarray \<times> fetches) list" where
  "solve_calls tr = concat (map (\<lambda>c. case c of Solve g f \<Rightarrow> [(g, f)] | _ \<Rightarrow> []) tr)"

text \<open>
  The exception a recorded call raised, if any. A run propagates errors when no call but
  the last of its trace raised, and the run ends with the exception of its last call if
  that one raised: nothing was caught, nothing was tried again, nothing ran afterwards.
\<close>

definition raises :: "plt_lib \<Rightarrow> truth_fn \<Rightarrow> model \<Rightarrow> call \<Rightarrow> py_error option" where
  "raises lib solution m c =
     (case c of
        Solve g f \<Rightarrow> (case solve m g f of Inl e \<Rightarrow> Some e | Inr v \<Rightarrow> None)
      | Truth p \<Rightarrow> (case solution p of Inl e \<Rightarrow> Some e | Inr v \<Rightarrow> None)
      | Plt c \<Rightarrow> lib c)"

definition propagates :: "plt_lib \<Rightarrow> truth_fn \<Rightarrow> model \<Rightarrow> 'a run \<Rightarrow> bool" where
  "propagates lib solution m r \<longleftrightarrow>
     (\<forall>c \<in> set (butlast (snd r)). raises lib solution m c = None)
     \<and> (\<forall>e. snd r \<noteq> [] \<and> raises lib solution m (last (snd r)) = Some e \<longrightarrow> fst r = Inl e)"

text \<open>
  The invocations of the ground-truth function in a trace, with their argument, and the
  calls of \<^verbatim>\<open>plt.fill_between\<close> (the confidence band), with the abscissae and the two
  bounds of the band, in order.
\<close>

definition truth_calls :: "call list \<Rightarrow> real ndarray list" where
  "truth_calls tr = concat (map (\<lambda>c. case c of Truth p \<Rightarrow> [p] | _ \<Rightarrow> []) tr)"

definition band_calls :: "call list \<Rightarrow> (real ndarray \<times> real ndarray \<times> real ndarray) list" where
  "band_calls tr =
     concat (map (\<lambda>c. case c of Plt (Fill_between x lo hi) \<Rightarrow> [(x, lo, hi)] | _ \<Rightarrow> []) tr)"

text \<open>
  The words of the specification for the point array of one section: the spatial grid
  (for \<open>plot_sections_2d\<close>, the points as one column) with one more column appended that
  holds the timestamp in every row.
\<close>

definition column_of :: "'a ndarray \<Rightarrow> 'a ndarray" where
  "column_of a = \<lparr>shape = [size_of a, 1], data = data a\<rparr>"

definition append_column :: "'a ndarray \<Rightarrow> 'a \<Rightarrow> 'a ndarray" where
  "append_column g t =
     (case shape g of
        [r, c] \<Rightarrow> \<lparr>shape = [r, c + 1], data = concat (map (\<lambda>row. row @ [t]) (rows_of g))\<rparr>
      | _ \<Rightarrow> g)"

text \<open>
  Plotting calls attempted one after the other stop at the first that raises:
  \<open>calls_made\<close> are the calls that were invoked, the one that raised included, and
  \<open>calls_outcome\<close> is how the sequence ended.
\<close>

fun calls_made :: "plt_lib \<Rightarrow> plt_call list \<Rightarrow> plt_call list" where
  "calls_made lib [] = []"
| "calls_made lib (c # cs) = c # (case lib c of None \<Rightarrow> calls_made lib cs | Some e \<Rightarrow> [])"

fun calls_outcome :: "plt_lib \<Rightarrow> plt_call list \<Rightarrow> py_error + unit" where
  "calls_outcome lib [] = Inr ()"
| "calls_outcome lib (c # cs) = (case lib c of None \<Rightarrow> calls_outcome lib cs | Some e \<Rightarrow> Inl e)"

text \<open>
  The plotting statements of \<open>plot_pair_1d\<close> (lines 28 to 44 of the source) as the calls
  they attempt, in order, for the model's answer \<open>approxs\<close>, the plotted coordinates
  \<open>pts'\<close> and the ground truth \<open>truth\<close>: the five calls before the band, the band when
  \<open>confidence\<close> is not \<open>None\<close>, and the calls after it.
\<close>

definition pair_1d_first_plots ::
  "pair_1d_args \<Rightarrow> real ndarray \<Rightarrow> real ndarray \<Rightarrow> real ndarray \<Rightarrow> plt_call list" where
  "pair_1d_first_plots a approxs pts' truth =
     [Plot [pts', flatten truth] ''True solution'',
      Plot [pts', approxs] ''Network approximation'',
      Xlabel (xlabel a), Ylabel (ylabel a), Title (pair_1d_args.title a)]"

definition pair_1d_last_plots :: "pair_1d_args \<Rightarrow> plt_call list" where
  "pair_1d_last_plots a =
     [Legend (loc a), Grid (pair_1d_args.grid a)]
     @ (if pair_1d_args.save a then [Savefig (pair_1d_args.path a)] else [])
     @ [Show]"

definition pair_1d_plots ::
  "pair_1d_args \<Rightarrow> real ndarray \<Rightarrow> real ndarray \<Rightarrow> real ndarray \<Rightarrow> plt_call list" where
  "pair_1d_plots a approxs pts' truth =
     pair_1d_first_plots a approxs pts' truth
     @ (case confidence a of
          None \<Rightarrow> []
        | Some c \<Rightarrow> [Fill_between (flatten pts') (minus_scalar (flatten truth) c)
                                    (plus_scalar (flatten truth) c)])
     @ pair_1d_last_plots a"

section \<open>Arrays in a store\<close>

text \<open>
  Arrays as Python holds them, for the question whether \<open>cart_prod\<close> writes to its
  arguments: a store of buffers, and array objects that name a buffer and give it a shape.
  \<^verbatim>\<open>np.meshgrid\<close> reads its inputs and returns new arrays (numpy copies the broadcast
  views, \<open>copy=True\<close> being the default), \<^verbatim>\<open>np.stack\<close> returns a new array, and
  \<^verbatim>\<open>reshape\<close> returns a view: a new array object on the buffer of the stacked array.
  None of them writes to a buffer that exists already.
\<close>

type_synonym 'a store = "'a list list"

record aref =
  ref_shape :: "nat list"
  ref_buf :: nat

definition read_array :: "'a store \<Rightarrow> aref \<Rightarrow> 'a ndarray" where
  "read_array s r = \<lparr>shape = ref_shape r, data = s ! ref_buf r\<rparr>"

definition alloc :: "'a store \<Rightarrow> 'a ndarray \<Rightarrow> aref \<times> 'a store" where
  "alloc s a = (\<lparr>ref_shape = shape a, ref_buf = length s\<rparr>, s @ [data a])"

fun alloc_all :: "'a store \<Rightarrow> 'a ndarray list \<Rightarrow> aref list \<times> 'a store" where
  "alloc_all s [] = ([], s)"
| "alloc_all s (a # as) =
     (case alloc s a of (r, s1) \<Rightarrow>
        (case alloc_all s1 as of (rs, s2) \<Rightarrow> (r # rs, s2)))"

definition meshgrid_ij_st :: "'a store \<Rightarrow> aref list \<Rightarrow> aref list \<times> 'a store" where
  "meshgrid_ij_st s refs = alloc_all s (meshgrid_ij (map (\<lambda>r. data (read_array s r)) refs))"

definition stack_last_st :: "'a store \<Rightarrow> aref list \<Rightarrow> (py_error + aref) \<times> 'a store" where
  "stack_last_st s grids =
     (case stack_last (map (read_array s) grids) of
        Inl e \<Rightarrow> (Inl e, s)
      | Inr a \<Rightarrow> (case alloc s a of (r, s1) \<Rightarrow> (Inr r, s1)))"

definition reshape_rows_st :: "'a store \<Rightarrow> aref \<Rightarrow> nat \<Rightarrow> (py_error + aref) \<times> 'a store" where
  "reshape_rows_st s r k =
     (case reshape_rows (read_array s r) k of
        Inl e \<Rightarrow> (Inl e, s)
      | Inr a \<Rightarrow> (Inr \<lparr>ref_shape = shape a, ref_buf = ref_buf r\<rparr>, s))"

definition cart_prod_st :: "'a store \<Rightarrow> aref list \<Rightarrow> (py_error + aref) \<times> 'a store" where
  "cart_prod_st s arrs =
     (case meshgrid_ij_st s arrs of (grids, s1) \<Rightarrow>
        (case stack_last_st s1 grids of
           (Inl e, s2) \<Rightarrow> (Inl e, s2)
         | (Inr stacked, s2) \<Rightarrow> reshape_rows_st s2 stacked (length arrs)))"

definition contents :: "'a store \<Rightarrow> py_error + aref \<Rightarrow> py_error + 'a ndarray" where
  "contents s r = (case r of Inl e \<Rightarrow> Inl e | Inr p \<Rightarrow> Inr (read_array s p))"

section \<open>Example inputs\<close>

text \<open>
  Concrete collaborators and arguments for the examples below: a plotting library that
  never raises, and one each whose \<open>savefig\<close>, \<open>colorbar\<close> and \<open>show\<close> raises; a model
  that answers zero for every row and a model whose \<open>solve\<close> raises; the identity as
  ground truth; and the default arguments of the functions, as their signatures give them.
\<close>

definition no_fail :: plt_lib where
  "no_fail = (\<lambda>c. None)"

definition savefig_fails :: plt_lib where
  "savefig_fails = (\<lambda>c. case c of
                          Savefig p \<Rightarrow> Some (LibraryError ''FileNotFoundError'')
                        | _ \<Rightarrow> None)"

definition colorbar_fails :: plt_lib where
  "colorbar_fails = (\<lambda>c. case c of
                           Colorbar \<Rightarrow> Some (LibraryError ''RuntimeError'')
                         | _ \<Rightarrow> None)"

definition show_fails :: plt_lib where
  "show_fails = (\<lambda>c. case c of Show \<Rightarrow> Some (LibraryError ''RuntimeError'') | _ \<Rightarrow> None)"

definition zeros_model :: model where
  "zeros_model = \<lparr>solve = (\<lambda>g f. case first_dim g of
                                   Inl e \<Rightarrow> Inl e
                                 | Inr n \<Rightarrow> Inr (array1 (replicate n 0)))\<rparr>"

definition failing_model :: model where
  "failing_model = \<lparr>solve = (\<lambda>g f. Inl (LibraryError ''RuntimeError''))\<rparr>"

definition identity_solution :: truth_fn where
  "identity_solution = (\<lambda>p. Inr p)"

definition backslash :: char where
  "backslash = CHR 0x5C"

definition plot_2d_defaults :: plot_2d_args where
  "plot_2d_defaults =
     \<lparr>plot_2d_args.mode = ''imshow'', plot_2d_args.fetches = None, plot_2d_args.grid = None,
      plot_2d_args.cmap = ''viridis'',
      plot_2d_args.title =
        ''Elliptic PDE in $'' @ CHR 0x5C # ''mathcal{R}^2$: approximate solution'',
      plot_2d_args.xlim = (0, 1), plot_2d_args.ylim = (0, 1),
      plot_2d_args.num_points = None, plot_2d_args.save = False,
      plot_2d_args.path = ''approximation.png''\<rparr>"

definition pair_1d_defaults :: pair_1d_args where
  "pair_1d_defaults =
     \<lparr>pair_1d_args.points = None,
      plot_coord = None,
      xlabel = ''$t$'',
      ylabel = ''$'' @ backslash # ''hat{u} | u$'',
      confidence = None,
      alpha = 0.4,
      pair_1d_args.title = ''Solution against approximation'',
      loc = 1,
      pair_1d_args.grid = True,
      pair_1d_args.save = False,
      pair_1d_args.path = ''pair.png''\<rparr>"

definition sections_2d_defaults :: sections_2d_args where
  "sections_2d_defaults =
     \<lparr>sections_2d_args.timestamps = [0, 0.2, 0.4, 0.6, 0.7, 0.9],
      sections_2d_args.grid_size = (2, 3),
      sections_2d_args.points = None,
      sections_2d_args.fetches = None,
      sections_2d_args.xlim = (0, 1),
      sections_2d_args.ylim = (0, 0.3),
      sections_2d_args.title =
        ''Heat PDE in $'' @ backslash # ''mathcal{R}$: $'' @ backslash # ''hat{u}$'',
      sections_2d_args.save = False,
      sections_2d_args.path = ''sections.png''\<rparr>"

definition sections_3d_defaults :: sections_3d_args where
  "sections_3d_defaults =
     \<lparr>sections_3d_args.timestamps = [0, 0.2, 0.4, 0.6, 0.7, 0.9],
      sections_3d_args.grid_size = (2, 3),
      sections_3d_args.mode = ''3d_view'',
      sections_3d_args.fetches = None,
      sections_3d_args.xlim = (0, 1),
      sections_3d_args.ylim = (0, 1),
      zlim = (- 0.2, 0.2),
      sections_3d_args.num_points = None,
      sections_3d_args.title =
        ''Heat PDE in $'' @ backslash # ''mathcal{R}^2$: $'' @ backslash # ''hat{u}$'',
      sections_3d_args.cmap = ''viridis'',
      sections_3d_args.save = False,
      sections_3d_args.path = ''sections.png''\<rparr>"

definition two_points :: "real ndarray" where
  "two_points = \<lparr>shape = [2, 1], data = [0, 1]\<rparr>"

definition unrecognized_saving :: plot_2d_args where
  "unrecognized_saving =
     plot_2d_defaults\<lparr>plot_2d_args.mode := ''scatter'', plot_2d_args.save := True\<rparr>"

definition unrecognized_bad_path :: plot_2d_args where
  "unrecognized_bad_path =
     plot_2d_defaults\<lparr>plot_2d_args.mode := ''scatter'', plot_2d_args.save := True,
                       plot_2d_args.path := ''/missing/out.png''\<rparr>"

definition two_by_two :: plot_2d_args where
  "two_by_two = plot_2d_defaults\<lparr>plot_2d_args.num_points := Some 2\<rparr>"

definition zero_points :: plot_2d_args where
  "zero_points = plot_2d_defaults\<lparr>plot_2d_args.num_points := Some 0\<rparr>"

definition contourf_given_grid :: plot_2d_args where
  "contourf_given_grid =
     plot_2d_defaults\<lparr>plot_2d_args.mode := ''contourf'',
                       plot_2d_args.grid := Some two_points\<rparr>"

definition two_sections :: sections_2d_args where
  "two_sections =
     sections_2d_defaults\<lparr>sections_2d_args.timestamps := [0, 1],
                           sections_2d_args.points := Some two_points\<rparr>"

definition seven_sections :: sections_2d_args where
  "seven_sections =
     sections_2d_defaults\<lparr>sections_2d_args.timestamps := [0, 1, 2, 3, 4, 5, 6],
                           sections_2d_args.points := Some two_points\<rparr>"

definition two_sections_3d :: sections_3d_args where
  "two_sections_3d =
     sections_3d_defaults\<lparr>sections_3d_args.timestamps := [0, 1],
                           sections_3d_args.num_points := Some 1\<rparr>"

definition pair_with_band :: pair_1d_args where
  "pair_with_band =
     pair_1d_defaults\<lparr>pair_1d_args.points := Some two_points, confidence := Some 1\<rparr>"

definition pair_bad_coord :: pair_1d_args where
  "pair_bad_coord =
     pair_1d_defaults\<lparr>pair_1d_args.points := Some two_points, plot_coord := Some 1,
                       confidence := Some 1\<rparr>"

definition store_one :: "int store" where
  "store_one = [[7], [1, 2], [10, 20]]"

definition store_two :: "int store" where
  "store_two = [[1, 2], [10, 20]]"

section \<open>Index arithmetic of the broadcast data\<close>

lemma length_tile: "length (tile m xs) = m * length xs"
  by (induction m) (simp_all add: tile_def)

lemma tile_nth: "j < m * length xs \<Longrightarrow> tile m xs ! j = xs ! (j mod length xs)"
proof (induction m arbitrary: j)
  case 0
  then show ?case by simp
next
  case (Suc m)
  show ?case
  proof (cases "j < length xs")
    case True
    then show ?thesis by (simp add: tile_def nth_append)
  next
    case False
    then have "j - length xs < m * length xs" using Suc.prems by simp
    from Suc.IH[OF this] False show ?thesis
      by (simp add: tile_def nth_append le_mod_geq)
  qed
qed

lemma length_repeat_each: "length (repeat_each r xs) = length xs * r"
  by (induction xs) (simp_all add: repeat_each_def)

lemma repeat_each_nth: "j < length xs * r \<Longrightarrow> repeat_each r xs ! j = xs ! (j div r)"
proof (induction xs arbitrary: j)
  case Nil
  then show ?case by simp
next
  case (Cons x xs)
  show ?case
  proof (cases "j < r")
    case True
    then show ?thesis by (simp add: repeat_each_def nth_append)
  next
    case False
    then have "j - r < length xs * r" using Cons.prems by simp
    moreover from this have "0 < r" by (cases r) simp_all
    ultimately show ?thesis using Cons.IH[of "j - r"] False
      by (simp add: repeat_each_def nth_append le_div_geq)
  qed
qed

lemma concat_uniform_nth:
  "\<forall>ys \<in> set yss. length ys = M \<Longrightarrow> j < length yss * M \<Longrightarrow>
   concat yss ! j = yss ! (j div M) ! (j mod M)"
proof (induction yss arbitrary: j)
  case Nil
  then show ?case by simp
next
  case (Cons ys yss)
  show ?case
  proof (cases "j < M")
    case True
    with Cons.prems show ?thesis by (simp add: nth_append)
  next
    case False
    then have less: "j - M < length yss * M" using Cons.prems by simp
    moreover have "\<forall>ys \<in> set yss. length ys = M" using Cons.prems by simp
    ultimately have "concat yss ! (j - M) = yss ! ((j - M) div M) ! ((j - M) mod M)"
      by (rule Cons.IH[rotated])
    moreover have "0 < M" using less by (cases M) simp_all
    ultimately show ?thesis using False Cons.prems
      by (simp add: nth_append le_div_geq le_mod_geq)
  qed
qed

lemma prod_list_split:
  assumes "i < length ns"
  shows "prod_list ns = prod_list (take i ns) * (ns ! i * prod_list (drop (Suc i) ns))"
proof -
  from assms have "ns = take i ns @ ns ! i # drop (Suc i) ns"
    by (simp add: id_take_nth_drop)
  then have "prod_list ns = prod_list (take i ns @ ns ! i # drop (Suc i) ns)" by simp
  then show ?thesis by (simp only: prod_list.append prod_list.Cons)
qed

section \<open>The nested-loop order\<close>

lemma length_nested_loop_rows:
  "length (nested_loop_rows xss) = prod_list (map length xss)"
  by (induction xss) (simp_all add: length_concat o_def sum_list_triv)

lemma length_row_nested: "r \<in> set (nested_loop_rows xss) \<Longrightarrow> length r = length xss"
  by (induction xss arbitrary: r) auto

lemma nth_row_nested:
  "r \<in> set (nested_loop_rows xss) \<Longrightarrow> i < length xss \<Longrightarrow> r ! i \<in> set (xss ! i)"
proof (induction xss arbitrary: r i)
  case Nil
  then show ?case by simp
next
  case (Cons xs xss)
  then obtain x r' where r: "r = x # r'" "x \<in> set xs" "r' \<in> set (nested_loop_rows xss)"
    by auto
  show ?case
  proof (cases i)
    case 0
    with r show ?thesis by simp
  next
    case (Suc i')
    with Cons.prems have "i' < length xss" by simp
    from Cons.IH[OF r(3) this] r Suc show ?thesis by simp
  qed
qed

lemma nested_loop_rows_nth:
  "i < length xss \<Longrightarrow> j < prod_list (map length xss) \<Longrightarrow>
   nested_loop_rows xss ! j ! i =
     xss ! i ! ((j mod (length (xss ! i) * prod_list (map length (drop (Suc i) xss))))
                div prod_list (map length (drop (Suc i) xss)))"
proof (induction xss arbitrary: i j)
  case Nil
  then show ?case by simp
next
  case (Cons xs xss)
  let ?M = "prod_list (map length xss)"
  let ?blocks = "map (\<lambda>x. map (Cons x) (nested_loop_rows xss)) xs"
  have len: "\<forall>ys \<in> set ?blocks. length ys = ?M"
    by (simp add: length_nested_loop_rows)
  have j: "j < length ?blocks * ?M" using Cons.prems by simp
  have jd: "j div ?M < length xs"
    using Cons.prems by (simp add: less_mult_imp_div_less mult.commute)
  have M0: "0 < ?M" using j by (cases "?M = 0") simp_all
  have row: "nested_loop_rows (xs # xss) ! j
               = xs ! (j div ?M) # nested_loop_rows xss ! (j mod ?M)"
    using concat_uniform_nth[OF len j] jd M0
    by (simp add: length_nested_loop_rows)
  show ?case
  proof (cases i)
    case 0
    then show ?thesis using row Cons.prems by simp
  next
    case (Suc i')
    then have i': "i' < length xss" using Cons.prems by simp
    let ?n = "length (xss ! i')"
    let ?R = "prod_list (map length (drop (Suc i') xss))"
    have "?M = prod_list (take i' (map length xss))
                 * (map length xss ! i' * prod_list (drop (Suc i') (map length xss)))"
      using i' by (intro prod_list_split) simp
    then have dvd: "?n * ?R dvd ?M" using i' by (simp add: drop_map)
    have "nested_loop_rows xss ! (j mod ?M) ! i'
            = xss ! i' ! (((j mod ?M) mod (?n * ?R)) div ?R)"
      using M0 by (intro Cons.IH[OF i']) simp
    also have "(j mod ?M) mod (?n * ?R) = j mod (?n * ?R)"
      using dvd by (rule mod_mod_cancel)
    finally show ?thesis using row Suc by simp
  qed
qed

section \<open>What \<open>cart_prod\<close> returns\<close>

lemma meshgrid_ij_data_nth:
  assumes i: "i < length arrs" and j: "j < prod_list (map length arrs)"
  shows "data (meshgrid_ij arrs ! i) ! j = nested_loop_rows arrs ! j ! i"
proof -
  let ?lens = "map length arrs"
  let ?P = "prod_list (take i ?lens)"
  let ?n = "length (arrs ! i)"
  let ?R = "prod_list (drop (Suc i) ?lens)"
  have split: "prod_list ?lens = ?P * (?n * ?R)"
    using prod_list_split[of i ?lens] i by simp
  have len: "length (repeat_each ?R (arrs ! i)) = ?n * ?R"
    by (simp add: length_repeat_each)
  have pos: "0 < ?n * ?R" using j split by (cases "?n * ?R = 0") simp_all
  have "data (meshgrid_ij arrs ! i) ! j = tile ?P (repeat_each ?R (arrs ! i)) ! j"
    using i by (simp add: meshgrid_ij_def Let_def)
  also have "\<dots> = repeat_each ?R (arrs ! i) ! (j mod (?n * ?R))"
    using tile_nth[of j ?P "repeat_each ?R (arrs ! i)"] j split len by simp
  also have "\<dots> = arrs ! i ! ((j mod (?n * ?R)) div ?R)"
    using pos by (intro repeat_each_nth) simp
  also have "\<dots> = nested_loop_rows arrs ! j ! i"
    using nested_loop_rows_nth[OF i j] by (simp add: drop_map)
  finally show ?thesis .
qed

lemma stack_meshgrid_ij:
  assumes "arrs \<noteq> []"
  shows "stack_last (meshgrid_ij arrs) =
           Inr \<lparr>shape = map length arrs @ [length arrs],
                data = concat (nested_loop_rows arrs)\<rparr>"
proof -
  let ?gs = "meshgrid_ij arrs"
  let ?N = "prod_list (map length arrs)"
  have lg: "length ?gs = length arrs" by (simp add: meshgrid_ij_def Let_def)
  have sh: "\<forall>h \<in> set ?gs. shape h = map length arrs"
    by (auto simp: meshgrid_ij_def Let_def)
  from assms lg obtain g gs' where g: "?gs = g # gs'" by (cases ?gs) auto
  then have shg: "shape g = map length arrs" using sh by simp
  have rows: "map (\<lambda>j. map (\<lambda>h. data h ! j) ?gs) [0..<?N] = nested_loop_rows arrs"
  proof (rule nth_equalityI)
    show "length (map (\<lambda>j. map (\<lambda>h. data h ! j) ?gs) [0..<?N])
            = length (nested_loop_rows arrs)"
      by (simp add: length_nested_loop_rows)
  next
    fix j assume "j < length (map (\<lambda>j. map (\<lambda>h. data h ! j) ?gs) [0..<?N])"
    then have j: "j < ?N" by simp
    then have mem: "nested_loop_rows arrs ! j \<in> set (nested_loop_rows arrs)"
      by (simp add: length_nested_loop_rows)
    have "map (\<lambda>h. data h ! j) ?gs = nested_loop_rows arrs ! j"
    proof (rule nth_equalityI)
      show "length (map (\<lambda>h. data h ! j) ?gs) = length (nested_loop_rows arrs ! j)"
        using length_row_nested[OF mem] lg by simp
    next
      fix i assume "i < length (map (\<lambda>h. data h ! j) ?gs)"
      then have "i < length arrs" using lg by simp
      then show "map (\<lambda>h. data h ! j) ?gs ! i = nested_loop_rows arrs ! j ! i"
        using meshgrid_ij_data_nth[OF _ j] lg by simp
    qed
    with j show "map (\<lambda>j. map (\<lambda>h. data h ! j) ?gs) [0..<?N] ! j
                   = nested_loop_rows arrs ! j"
      by simp
  qed
  have "stack_last ?gs =
          Inr \<lparr>shape = shape g @ [length ?gs],
               data = concat (map (\<lambda>j. map (\<lambda>h. data h ! j) ?gs) [0..<size_of g])\<rparr>"
    using g sh by (simp add: stack_last_def)
  then show ?thesis using rows shg lg by (simp add: size_of_def)
qed

lemma cart_prod_eq:
  assumes "arrs \<noteq> []"
  shows "cart_prod arrs =
           Inr \<lparr>shape = [prod_list (map length arrs), length arrs],
                data = concat (nested_loop_rows arrs)\<rparr>"
  using assms by (simp add: cart_prod_def stack_meshgrid_ij reshape_rows_def size_of_def)

lemma chunk_concat_nth:
  "\<forall>r \<in> set rs. length r = k \<Longrightarrow> i < length rs \<Longrightarrow>
   take k (drop (i * k) (concat rs)) = rs ! i"
proof (induction rs arbitrary: i)
  case Nil
  then show ?case by simp
next
  case (Cons r rs)
  then show ?case by (cases i) (simp_all add: add.commute)
qed

lemma rows_of_concat:
  assumes "\<forall>r \<in> set rs. length r = k"
  shows "rows_of \<lparr>shape = [length rs, k], data = concat rs\<rparr> = rs"
  using assms by (auto simp: rows_of_def chunk_concat_nth intro!: nth_equalityI)

lemma length_concat_uniform:
  "\<forall>r \<in> set rs. length r = k \<Longrightarrow> length (concat rs) = length rs * k"
  by (induction rs) simp_all

lemma rows_of_cart_prod_data:
  "rows_of \<lparr>shape = [prod_list (map length arrs), length arrs],
            data = concat (nested_loop_rows arrs)\<rparr> = nested_loop_rows arrs"
  using rows_of_concat[of "nested_loop_rows arrs" "length arrs"]
  by (simp add: length_row_nested length_nested_loop_rows)

section \<open>Runs step by step\<close>

lemma bind_run_Inl [simp]: "bind_run (Inl e, tr) f = (Inl e, tr)"
  by (simp add: bind_run_def)

lemma bind_run_Inr [simp]: "bind_run (Inr x, tr) f = (fst (f x), tr @ snd (f x))"
  by (simp add: bind_run_def split: prod.splits)

lemma bind_run_ret [simp]: "bind_run (ret x) f = f x"
  by (simp add: ret_def)

lemma bind_run_raise [simp]: "bind_run (raise_err e) f = raise_err e"
  by (simp add: raise_err_def)

lemma bind_run_lift_Inr [simp]: "bind_run (lift (Inr x)) f = f x"
  by (simp add: lift_def)

lemma bind_run_lift_Inl [simp]: "bind_run (lift (Inl e)) f = raise_err e"
  by (simp add: lift_def raise_err_def)

lemma do_all_Nil [simp]: "do_all [] = ret ()"
  by (simp add: do_all_def)

lemma do_all_Cons [simp]: "do_all (s # ss) = bind_run s (\<lambda>_. do_all ss)"
  by (simp add: do_all_def)

lemma when_do_True [simp]: "when_do True s = s"
  by (simp add: when_do_def)

lemma when_do_False [simp]: "when_do False s = ret ()"
  by (simp add: when_do_def)

lemma plot_2d_given_grid:
  assumes "plot_2d_args.mode a \<in> {''contourf'', ''3d_view''}"
    and "plot_2d_args.grid a = Some g"
  shows "plot_2d lib m a =
           ((case solve m g None of Inl e \<Rightarrow> Inl e | Inr v \<Rightarrow> Inl UnboundLocalError),
            [Solve g None])"
  using assms
  by (auto simp: plot_2d_def call_solve_def raise_err_def split: sum.splits)

lemma solve_calls_Nil [simp]: "solve_calls [] = []"
  by (simp add: solve_calls_def)

lemma solve_calls_Cons [simp]:
  "solve_calls (c # tr) = (case c of Solve g f \<Rightarrow> [(g, f)] | _ \<Rightarrow> []) @ solve_calls tr"
  by (simp add: solve_calls_def)

lemma solve_calls_append [simp]: "solve_calls (t1 @ t2) = solve_calls t1 @ solve_calls t2"
  by (simp add: solve_calls_def)

lemma snd_bind_run:
  "snd (bind_run m f) = (case fst m of Inl e \<Rightarrow> snd m | Inr x \<Rightarrow> snd m @ snd (f x))"
  by (cases m) (auto simp: bind_run_def split: sum.splits prod.splits)

lemma fst_bind_run:
  "fst (bind_run m f) = (case fst m of Inl e \<Rightarrow> Inl e | Inr x \<Rightarrow> fst (f x))"
  by (cases m) (auto simp: bind_run_def split: sum.splits prod.splits)

lemma solve_calls_bind:
  "solve_calls (snd (bind_run m f)) =
     (case fst m of
        Inl e \<Rightarrow> solve_calls (snd m)
      | Inr x \<Rightarrow> solve_calls (snd m) @ solve_calls (snd (f x)))"
  by (simp add: snd_bind_run split: sum.splits)

lemma solve_calls_call_plt [simp]: "solve_calls (snd (call_plt lib c)) = []"
  by (simp add: call_plt_def)

lemma solve_calls_ret [simp]: "solve_calls (snd (ret x)) = []"
  by (simp add: ret_def)

lemma solve_calls_raise_err [simp]: "solve_calls (snd (raise_err e)) = []"
  by (simp add: raise_err_def)

lemma solve_calls_lift [simp]: "solve_calls (snd (lift r)) = []"
  by (simp add: lift_def)

lemma solve_calls_call_solve [simp]: "solve_calls (snd (call_solve m g f)) = [(g, f)]"
  by (simp add: call_solve_def)

lemma solve_calls_when_do [simp]:
  "solve_calls (snd (when_do b s)) = (if b then solve_calls (snd s) else [])"
  by (simp add: when_do_def)

lemma linspace_length:
  assumes "0 \<le> n"
  shows "\<exists>xs. linspace a b n = Inr xs \<and> length xs = nat n"
  using assms by (simp add: linspace_def)

lemma linspace_negative: "n < 0 \<Longrightarrow> linspace a b n = Inl ValueError"
  by (simp add: linspace_def)

lemma or_default_nonzero: "or_default k d = 0 \<Longrightarrow> d = 0"
  by (simp add: or_default_def split: option.splits if_splits)

lemma plot_2d_imshow_calls:
  assumes mode: "plot_2d_args.mode a = ''imshow''"
    and grid: "plot_2d_args.grid a = None"
    and n: "0 \<le> or_default (plot_2d_args.num_points a) 80"
  shows "\<exists>g. solve_calls (snd (plot_2d lib m a)) = [(g, plot_2d_args.fetches a)]
             \<and> shape g = [nat (or_default (plot_2d_args.num_points a) 80)
                            * nat (or_default (plot_2d_args.num_points a) 80), 2]"
proof -
  let ?n = "or_default (plot_2d_args.num_points a) 80"
  from linspace_length[OF n] obtain xs where
    xs: "linspace (fst (plot_2d_args.xlim a)) (snd (plot_2d_args.xlim a)) ?n = Inr xs"
        "length xs = nat ?n"
    by blast
  from linspace_length[OF n] obtain ys where
    ys: "linspace (fst (plot_2d_args.ylim a)) (snd (plot_2d_args.ylim a)) ?n = Inr ys"
        "length ys = nat ?n"
    by blast
  let ?g = "\<lparr>shape = [nat ?n * nat ?n, 2], data = concat (nested_loop_rows [xs, ys])\<rparr>"
  have g: "cart_prod [xs, ys] = Inr ?g"
    using cart_prod_eq[of "[xs, ys]"] xs(2) ys(2) by simp
  have "solve_calls (snd (plot_2d lib m a)) = [(?g, plot_2d_args.fetches a)]"
    using mode grid xs(1) ys(1) g
    by (simp add: plot_2d_def Let_def solve_calls_bind split: sum.splits)
  then show ?thesis by simp
qed

lemma plot_2d_imshow_negative:
  assumes mode: "plot_2d_args.mode a = ''imshow''"
    and grid: "plot_2d_args.grid a = None"
    and n: "or_default (plot_2d_args.num_points a) 80 < 0"
  shows "plot_2d lib m a = (Inl ValueError, [])"
  using assms by (simp add: plot_2d_def Let_def linspace_negative raise_err_def)

lemma propagates_ret [simp]: "propagates lib sol m (ret x)"
  by (simp add: propagates_def ret_def)

lemma propagates_raise_err [simp]: "propagates lib sol m (raise_err e)"
  by (simp add: propagates_def raise_err_def)

lemma propagates_lift [simp]: "propagates lib sol m (lift r)"
  by (simp add: propagates_def lift_def)

lemma propagates_call_plt [simp]: "propagates lib sol m (call_plt lib c)"
  by (simp add: propagates_def call_plt_def raises_def)

lemma propagates_call_solve [simp]: "propagates lib sol m (call_solve m g f)"
  by (simp add: propagates_def call_solve_def raises_def split: sum.splits)

lemma propagates_call_solution [simp]: "propagates lib sol m (call_solution sol p)"
  by (simp add: propagates_def call_solution_def raises_def split: sum.splits)

lemma propagates_bind [intro!]:
  assumes m: "propagates lib sol md m"
    and f: "\<And>x. propagates lib sol md (f x)"
  shows "propagates lib sol md (bind_run m f)"
proof (cases m)
  case (Pair r tr)
  show ?thesis
  proof (cases r)
    case (Inl e)
    with Pair m show ?thesis by (simp add: propagates_def)
  next
    case (Inr x)
    have quiet: "\<forall>c \<in> set tr. raises lib sol md c = None"
    proof
      fix c assume c: "c \<in> set tr"
      then have ne: "tr \<noteq> []" by auto
      show "raises lib sol md c = None"
      proof (cases "c \<in> set (butlast tr)")
        case True
        with m Pair show ?thesis by (simp add: propagates_def)
      next
        case False
        with c ne have "c = last tr"
          by (metis append_butlast_last_id in_set_conv_decomp_last rotate1.simps(2) set_ConsD set_rotate1)
        with m Pair Inr ne show ?thesis
          by (cases "raises lib sol md (last tr)") (auto simp: propagates_def)
      qed
    qed
    obtain r' tr' where fx: "f x = (r', tr')" by (cases "f x")
    have pf: "propagates lib sol md (r', tr')" using f[of x] fx by simp
    show ?thesis
    proof (cases "tr' = []")
      case True
      with Pair Inr fx quiet show ?thesis
        by (auto simp: propagates_def dest: in_set_butlastD)
    next
      case False
      with Pair Inr fx quiet pf show ?thesis
        by (auto simp: propagates_def butlast_append)
    qed
  qed
qed

lemma propagates_do_all [intro!]:
  "(\<And>s. s \<in> set ss \<Longrightarrow> propagates lib sol m s) \<Longrightarrow> propagates lib sol m (do_all ss)"
  by (induction ss) auto

lemma propagates_when_do [intro!]:
  "propagates lib sol m s \<Longrightarrow> propagates lib sol m (when_do b s)"
  by (simp add: when_do_def)

lemma propagates_for_each [intro!]:
  "(\<And>x. propagates lib sol m (body x)) \<Longrightarrow> propagates lib sol m (for_each body xs)"
  by (induction xs) auto

lemma propagates_plot_loss: "propagates lib sol m (plot_loss lib loss color)"
  unfolding plot_loss_def by (intro propagates_do_all) auto

lemma propagates_plot_pair_1d: "propagates lib sol m (plot_pair_1d lib sol m a)"
  unfolding plot_pair_1d_def Let_def
  by (intro propagates_bind propagates_do_all) (auto split: option.splits)

lemma propagates_plot_2d: "propagates lib sol m (plot_2d lib m a)"
  unfolding plot_2d_def Let_def
  by (intro propagates_do_all) (auto split: option.splits prod.splits)

lemma propagates_section_2d: "propagates lib sol m (section_2d lib m a pts it)"
  unfolding section_2d_def
  by (auto split: prod.splits)

lemma propagates_plot_sections_2d: "propagates lib sol m (plot_sections_2d lib m a)"
  unfolding plot_sections_2d_def
  by (intro propagates_bind propagates_do_all)
     (auto split: option.splits simp: propagates_section_2d)

lemma propagates_section_3d: "propagates lib sol m (section_3d lib m a xs ys g mesh it)"
  unfolding section_3d_def Let_def
  by (auto split: prod.splits)

lemma propagates_plot_sections_3d: "propagates lib sol m (plot_sections_3d lib m a)"
  unfolding plot_sections_3d_def Let_def
  by (intro propagates_bind propagates_do_all)
     (auto split: option.splits simp: propagates_section_3d)

lemma with_time_column_eq:
  assumes "with_time_column g t = Inr g'"
  shows "g' = append_column g t"
proof -
  from assms obtain n where n: "first_dim g = Inr n"
    and c: "concatenate_axis1 g (scaled_ones t n) = Inr g'"
    by (auto simp: with_time_column_def split: sum.splits)
  from c obtain r p where sh: "shape g = [r, p]"
    by (auto simp: concatenate_axis1_def scaled_ones_def split: list.splits if_splits)
  with n have rn: "r = n" by (simp add: first_dim_def)
  have "\<And>i. i \<in> set [0..<n] \<Longrightarrow> min (Suc 0) (n - i) = Suc 0"
    by auto
  then have "map (\<lambda>i. take p (drop (i * p) (data g)) @ replicate (min (Suc 0) (n - i)) t) [0..<n]
        = map (\<lambda>i. take p (drop (i * p) (data g)) @ [t]) [0..<n]"
    by (intro map_cong) simp_all
  with c sh rn show ?thesis
    by (auto simp: concatenate_axis1_def scaled_ones_def append_column_def rows_of_def o_def)
qed

lemma points_with_time_eq:
  assumes "points_with_time pts t = Inr g'"
  shows "g' = append_column (column_of pts) t"
proof -
  have col: "reshape_rows pts 1 = Inr (column_of pts)"
    by (simp add: reshape_rows_def column_of_def)
  from assms col obtain n where n: "first_dim pts = Inr n"
    and c: "concatenate_axis1 (column_of pts) (scaled_ones t n) = Inr g'"
    by (auto simp: points_with_time_def split: sum.splits)
  from c have "size_of pts = n"
    by (auto simp: concatenate_axis1_def scaled_ones_def column_of_def split: if_splits)
  then have "first_dim (column_of pts) = Inr n"
    by (simp add: first_dim_def column_of_def)
  with c have "with_time_column (column_of pts) t = Inr g'"
    by (simp add: with_time_column_def)
  then show ?thesis by (rule with_time_column_eq)
qed

lemma for_each_solve_calls:
  assumes "\<And>x. x \<in> set xs \<Longrightarrow>
             solve_calls (snd (body x)) = [e x]
             \<or> (solve_calls (snd (body x)) = [] \<and> fst (body x) \<noteq> Inr ())"
  shows "\<exists>k \<le> length xs.
           solve_calls (snd (for_each body xs)) = map e (take k xs)
           \<and> (fst (for_each body xs) = Inr () \<longrightarrow> k = length xs)"
  using assms
proof (induction xs)
  case Nil
  then show ?case by (simp add: ret_def)
next
  case (Cons x xs)
  from Cons.IH Cons.prems obtain k where k: "k \<le> length xs"
    "solve_calls (snd (for_each body xs)) = map e (take k xs)"
    "fst (for_each body xs) = Inr () \<longrightarrow> k = length xs"
    by auto
  show ?case
  proof (cases "fst (body x)")
    case (Inl err)
    from Cons.prems[of x] consider "solve_calls (snd (body x)) = [e x]"
      | "solve_calls (snd (body x)) = []" by auto
    then show ?thesis
    proof cases
      case 1
      with Inl show ?thesis
        by (intro exI[of _ "Suc 0"]) (simp add: solve_calls_bind fst_bind_run)
    next
      case 2
      with Inl show ?thesis
        by (intro exI[of _ 0]) (simp add: solve_calls_bind fst_bind_run)
    qed
  next
    case (Inr u)
    with Cons.prems[of x] have "solve_calls (snd (body x)) = [e x]" by auto
    with Inr k show ?thesis
      by (intro exI[of _ "Suc k"]) (simp add: solve_calls_bind fst_bind_run)
  qed
qed

lemma section_2d_solve_calls:
  "solve_calls (snd (section_2d lib m a pts (i, t)))
     = [(append_column (column_of pts) t, sections_2d_args.fetches a)]
   \<or> (solve_calls (snd (section_2d lib m a pts (i, t))) = []
      \<and> fst (section_2d lib m a pts (i, t)) \<noteq> Inr ())"
proof (cases "points_with_time pts t")
  case (Inl e)
  then show ?thesis by (simp add: section_2d_def raise_err_def)
next
  case (Inr p')
  then have p': "p' = append_column (column_of pts) t" by (rule points_with_time_eq)
  show ?thesis
  proof (cases "divmod i (snd (sections_2d_args.grid_size a))")
    case (Inl e)
    with Inr show ?thesis by (simp add: section_2d_def raise_err_def)
  next
    case w: (Inr w)
    obtain wx wy where w2: "w = (wx, wy)" by (cases w)
    show ?thesis
    proof (cases "axes_getitem (fst (sections_2d_args.grid_size a)) (snd (sections_2d_args.grid_size a)) wx wy")
      case (Inl e)
      with Inr w w2 show ?thesis by (simp add: section_2d_def raise_err_def)
    next
      case ax: (Inr ax)
      with Inr w w2 p' show ?thesis
        by (simp add: section_2d_def solve_calls_bind split: sum.splits)
    qed
  qed
qed

lemma map_snd_take_enumerate:
  "map (\<lambda>it. f (snd it)) (take k (enumerate n xs)) = map f (take k xs)"
proof -
  have "map (\<lambda>it. f (snd it)) (take k (enumerate n xs))
          = map f (map snd (take k (enumerate n xs)))"
    by (simp add: o_def)
  also have "map snd (take k (enumerate n xs)) = take k (map snd (enumerate n xs))"
    by (rule take_map[symmetric])
  also have "map snd (enumerate n xs) = xs"
    by (rule map_snd_enumerate)
  finally show ?thesis .
qed

lemma section_3d_solve_calls:
  "solve_calls (snd (section_3d lib m a xs ys g mesh (i, t))) = [(append_column g t, None)]
   \<or> (solve_calls (snd (section_3d lib m a xs ys g mesh (i, t))) = []
      \<and> fst (section_3d lib m a xs ys g mesh (i, t)) \<noteq> Inr ())"
proof (cases "with_time_column g t")
  case (Inl e)
  then show ?thesis
    by (cases mesh) (simp add: section_3d_def raise_err_def)
next
  case (Inr g')
  then have g': "g' = append_column g t" by (rule with_time_column_eq)
  obtain xs' ys' where mesh: "mesh = (xs', ys')" by (cases mesh)
  let ?sub = "Add_subplot (fst (sections_3d_args.grid_size a))
                (snd (sections_3d_args.grid_size a)) (i + 1)
                (sections_3d_args.mode a = ''3d_view'')"
  show ?thesis
  proof (cases "lib ?sub")
    case None
    with Inr g' mesh show ?thesis
      by (simp add: section_3d_def Let_def solve_calls_bind call_plt_def
               split: sum.splits)
  next
    case (Some e)
    with Inr g' mesh show ?thesis
      by (simp add: section_3d_def Let_def solve_calls_bind call_plt_def fst_bind_run)
  qed
qed

lemma plot_sections_2d_calls:
  "\<exists>pts k. (case sections_2d_args.points a of
               Some p \<Rightarrow> pts = p
             | None \<Rightarrow> shape pts = [100, 1] \<and> linspace 0 1 100 = Inr (data pts))
     \<and> k \<le> length (sections_2d_args.timestamps a)
     \<and> solve_calls (snd (plot_sections_2d lib m a))
         = map (\<lambda>t. (append_column (column_of pts) t, sections_2d_args.fetches a))
               (take k (sections_2d_args.timestamps a))
     \<and> (fst (plot_sections_2d lib m a) = Inr ()
          \<longrightarrow> k = length (sections_2d_args.timestamps a))"
proof -
  let ?ts = "sections_2d_args.timestamps a"
  obtain xs where xs: "linspace 0 1 100 = Inr xs" "length xs = 100"
    using linspace_length[of 100 0 1] by auto
  define pts where "pts = (case sections_2d_args.points a of
                             Some p \<Rightarrow> p
                           | None \<Rightarrow> \<lparr>shape = [100, 1], data = xs\<rparr>)"
  let ?e = "\<lambda>it. (append_column (column_of pts) (snd it), sections_2d_args.fetches a)"
  let ?loop = "for_each (section_2d lib m a pts) (enumerate 0 ?ts)"
  have pts: "(case sections_2d_args.points a of
               Some p \<Rightarrow> pts = p
             | None \<Rightarrow> shape pts = [100, 1] \<and> linspace 0 1 100 = Inr (data pts))"
    using xs by (simp add: pts_def split: option.splits)
  have start: "plot_sections_2d lib m a =
      do_all [call_plt lib (Subplots (fst (sections_2d_args.grid_size a))
                                     (snd (sections_2d_args.grid_size a))),
              ?loop,
              call_plt lib Tight_layout,
              call_plt lib (Suptitle (sections_2d_args.title a)),
              call_plt lib Subplots_adjust,
              when_do (sections_2d_args.save a)
                (call_plt lib (Savefig (sections_2d_args.path a))),
              call_plt lib Show]"
    using xs
    by (simp add: plot_sections_2d_def pts_def reshape_rows_def array1_def size_of_def
             split: option.splits)
  have "\<exists>k \<le> length (enumerate 0 ?ts).
          solve_calls (snd ?loop) = map ?e (take k (enumerate 0 ?ts))
          \<and> (fst ?loop = Inr () \<longrightarrow> k = length (enumerate 0 ?ts))"
  proof (rule for_each_solve_calls)
    fix x
    show "solve_calls (snd (section_2d lib m a pts x)) = [?e x]
          \<or> (solve_calls (snd (section_2d lib m a pts x)) = []
             \<and> fst (section_2d lib m a pts x) \<noteq> Inr ())"
      using section_2d_solve_calls[of lib m a pts "fst x" "snd x"] by simp
  qed
  then obtain k where k: "k \<le> length ?ts"
    "solve_calls (snd ?loop) = map ?e (take k (enumerate 0 ?ts))"
    "fst ?loop = Inr () \<longrightarrow> k = length ?ts"
    by auto
  have map_e: "map ?e (take k (enumerate 0 ?ts))
                 = map (\<lambda>t. (append_column (column_of pts) t, sections_2d_args.fetches a))
                       (take k ?ts)"
    by (rule map_snd_take_enumerate)
  show ?thesis
  proof (cases "lib (Subplots (fst (sections_2d_args.grid_size a))
                              (snd (sections_2d_args.grid_size a)))")
    case (Some err)
    with pts show ?thesis
      by (intro exI[of _ pts] exI[of _ 0])
         (simp add: start call_plt_def)
  next
    case None
    have "solve_calls (snd (plot_sections_2d lib m a)) = solve_calls (snd ?loop)"
      using None by (simp add: start solve_calls_bind call_plt_def split: sum.splits)
    moreover have "fst (plot_sections_2d lib m a) = Inr () \<longrightarrow> fst ?loop = Inr ()"
      using None by (auto simp: start fst_bind_run call_plt_def split: sum.splits)
    ultimately show ?thesis using pts k map_e
      by (intro exI[of _ pts] exI[of _ k]) auto
  qed
qed

lemma plot_sections_3d_negative:
  assumes "sections_3d_points a < 0"
  shows "plot_sections_3d lib m a = (Inl ValueError, [])"
  using assms by (simp add: plot_sections_3d_def Let_def linspace_negative raise_err_def)

lemma plot_sections_3d_grid:
  assumes "0 \<le> sections_3d_points a"
  shows "\<exists>xs ys g k.
       linspace (fst (sections_3d_args.xlim a)) (snd (sections_3d_args.xlim a))
         (sections_3d_points a) = Inr xs
     \<and> linspace (fst (sections_3d_args.ylim a)) (snd (sections_3d_args.ylim a))
         (sections_3d_points a) = Inr ys
     \<and> cart_prod [xs, ys] = Inr g
     \<and> shape g = [nat (sections_3d_points a) * nat (sections_3d_points a), 2]
     \<and> k \<le> length (sections_3d_args.timestamps a)
     \<and> solve_calls (snd (plot_sections_3d lib m a))
         = map (\<lambda>t. (append_column g t, None)) (take k (sections_3d_args.timestamps a))
     \<and> (fst (plot_sections_3d lib m a) = Inr ()
          \<longrightarrow> k = length (sections_3d_args.timestamps a))"
proof -
  let ?n = "sections_3d_points a"
  let ?ts = "sections_3d_args.timestamps a"
  from linspace_length[OF assms] obtain xs where
    xs: "linspace (fst (sections_3d_args.xlim a)) (snd (sections_3d_args.xlim a)) ?n = Inr xs"
    and lxs: "length xs = nat ?n"
    by blast
  from linspace_length[OF assms] obtain ys where
    ys: "linspace (fst (sections_3d_args.ylim a)) (snd (sections_3d_args.ylim a)) ?n = Inr ys"
    and lys: "length ys = nat ?n"
    by blast
  define g where "g = \<lparr>shape = [prod_list (map length [xs, ys]), length [xs, ys]],
                        data = concat (nested_loop_rows [xs, ys])\<rparr>"
  have g: "cart_prod [xs, ys] = Inr g"
    unfolding g_def by (rule cart_prod_eq) simp
  have sg: "shape g = [nat ?n * nat ?n, 2]"
    by (simp add: g_def lxs lys)
  let ?e = "\<lambda>it. (append_column g (snd it), None :: fetches)"
  let ?loop = "for_each (section_3d lib m a xs ys g (meshgrid_xy xs ys)) (enumerate 0 ?ts)"
  let ?fig = "Figure (Some (fst (sections_3d_args.grid_size a) * 7,
                            snd (sections_3d_args.grid_size a) * 3))"
  have start: "plot_sections_3d lib m a =
      do_all [call_plt lib ?fig,
              ?loop,
              call_plt lib (Suptitle (sections_3d_args.title a)),
              when_do (sections_3d_args.save a)
                (call_plt lib (Savefig (sections_3d_args.path a))),
              call_plt lib Show]"
    using xs ys g
    by (simp add: plot_sections_3d_def Let_def)
  have "\<exists>k \<le> length (enumerate 0 ?ts).
          solve_calls (snd ?loop) = map ?e (take k (enumerate 0 ?ts))
          \<and> (fst ?loop = Inr () \<longrightarrow> k = length (enumerate 0 ?ts))"
  proof (rule for_each_solve_calls)
    fix x
    show "solve_calls (snd (section_3d lib m a xs ys g (meshgrid_xy xs ys) x)) = [?e x]
          \<or> (solve_calls (snd (section_3d lib m a xs ys g (meshgrid_xy xs ys) x)) = []
             \<and> fst (section_3d lib m a xs ys g (meshgrid_xy xs ys) x) \<noteq> Inr ())"
      using section_3d_solve_calls[of lib m a xs ys g "meshgrid_xy xs ys" "fst x" "snd x"]
      by simp
  qed
  then obtain k where k: "k \<le> length ?ts"
    "solve_calls (snd ?loop) = map ?e (take k (enumerate 0 ?ts))"
    "fst ?loop = Inr () \<longrightarrow> k = length ?ts"
    by auto
  have map_e: "map ?e (take k (enumerate 0 ?ts))
                 = map (\<lambda>t. (append_column g t, None)) (take k ?ts)"
    by (rule map_snd_take_enumerate)
  show ?thesis
  proof (cases "lib ?fig")
    case (Some err)
    have "solve_calls (snd (plot_sections_3d lib m a)) = []"
      "fst (plot_sections_3d lib m a) \<noteq> Inr ()"
      using Some by (simp_all add: start call_plt_def)
    with xs ys g sg show ?thesis
      by (intro exI[of _ xs] exI[of _ ys] exI[of _ g] exI[of _ 0]) simp
  next
    case None
    have "solve_calls (snd (plot_sections_3d lib m a)) = solve_calls (snd ?loop)"
      using None by (simp add: start solve_calls_bind call_plt_def split: sum.splits)
    moreover have "fst (plot_sections_3d lib m a) = Inr () \<longrightarrow> fst ?loop = Inr ()"
      using None by (auto simp: start fst_bind_run call_plt_def split: sum.splits)
    ultimately show ?thesis using k map_e xs ys g sg
      by (intro exI[of _ xs] exI[of _ ys] exI[of _ g] exI[of _ k]) auto
  qed
qed

lemma truth_calls_Nil [simp]: "truth_calls [] = []"
  by (simp add: truth_calls_def)

lemma truth_calls_Cons [simp]:
  "truth_calls (c # tr) = (case c of Truth p \<Rightarrow> [p] | _ \<Rightarrow> []) @ truth_calls tr"
  by (simp add: truth_calls_def)

lemma band_calls_Nil [simp]: "band_calls [] = []"
  by (simp add: band_calls_def)

lemma band_calls_Cons [simp]:
  "band_calls (c # tr)
     = (case c of Plt (Fill_between x lo hi) \<Rightarrow> [(x, lo, hi)] | _ \<Rightarrow> []) @ band_calls tr"
  by (simp add: band_calls_def)

lemma band_calls_append [simp]: "band_calls (t1 @ t2) = band_calls t1 @ band_calls t2"
  by (simp add: band_calls_def)

lemma solve_calls_map_Plt [simp]: "solve_calls (map Plt cs) = []"
  by (induction cs) simp_all

lemma truth_calls_map_Plt [simp]: "truth_calls (map Plt cs) = []"
  by (induction cs) simp_all

lemma do_all_call_plt:
  "do_all (map (call_plt lib) cs) = (calls_outcome lib cs, map Plt (calls_made lib cs))"
proof (induction cs)
  case Nil
  show ?case by (simp add: ret_def)
next
  case (Cons c cs)
  then show ?case by (cases "lib c") (simp_all add: call_plt_def)
qed

lemma calls_made_append:
  "calls_made lib (xs @ ys) =
     (if list_all (\<lambda>c. lib c = None) xs then xs @ calls_made lib ys else calls_made lib xs)"
  by (induction xs) (auto split: option.splits)

lemma calls_outcome_ok:
  "calls_outcome lib cs = Inr () \<longleftrightarrow> list_all (\<lambda>c. lib c = None) cs"
  by (induction cs) (auto split: option.splits)

lemma band_calls_made_none:
  assumes "\<And>c. c \<in> set cs \<Longrightarrow> band_calls [Plt c] = []"
  shows "band_calls (map Plt (calls_made lib cs)) = []"
  using assms
proof (induction cs)
  case Nil
  show ?case by simp
next
  case (Cons c cs)
  have "band_calls [Plt c] = []" using Cons.prems by simp
  moreover have "band_calls (map Plt (calls_made lib cs)) = []"
    using Cons by simp
  ultimately show ?case by (cases "lib c") (simp_all split: plt_call.splits)
qed

lemma band_calls_first_plots:
  "band_calls (map Plt (calls_made lib (pair_1d_first_plots a approxs pts' truth))) = []"
  by (rule band_calls_made_none) (auto simp: pair_1d_first_plots_def)

lemma band_calls_last_plots:
  "band_calls (map Plt (calls_made lib (pair_1d_last_plots a))) = []"
  by (rule band_calls_made_none) (auto simp: pair_1d_last_plots_def)

lemma band_calls_first_plots_all:
  "band_calls (map Plt (pair_1d_first_plots a approxs pts' truth)) = []"
  by (simp add: pair_1d_first_plots_def)

lemma band_calls_pair_1d_plots:
  "band_calls (map Plt (calls_made lib (pair_1d_plots a approxs pts' truth)))
     = (case confidence a of
          None \<Rightarrow> []
        | Some c \<Rightarrow>
            if list_all (\<lambda>c. lib c = None) (pair_1d_first_plots a approxs pts' truth)
            then [(flatten pts', minus_scalar (flatten truth) c, plus_scalar (flatten truth) c)]
            else [])"
proof (cases "confidence a")
  case None
  then show ?thesis
    by (simp add: pair_1d_plots_def calls_made_append band_calls_first_plots
          band_calls_last_plots band_calls_first_plots_all)
next
  case (Some c)
  let ?band = "Fill_between (flatten pts') (minus_scalar (flatten truth) c)
                 (plus_scalar (flatten truth) c)"
  have "band_calls (map Plt (calls_made lib (?band # pair_1d_last_plots a)))
          = [(flatten pts', minus_scalar (flatten truth) c, plus_scalar (flatten truth) c)]"
    by (cases "lib ?band") (simp_all add: band_calls_last_plots)
  with Some show ?thesis
    by (simp add: pair_1d_plots_def calls_made_append band_calls_first_plots
          band_calls_first_plots_all del: calls_made.simps)
qed

lemma plot_pair_1d_plots:
  "do_all [call_plt lib (Plot [pts', flatten truth] ''True solution''),
           call_plt lib (Plot [pts', approxs] ''Network approximation''),
           call_plt lib (Xlabel (xlabel a)),
           call_plt lib (Ylabel (ylabel a)),
           call_plt lib (Title (pair_1d_args.title a)),
           (case confidence a of
              None \<Rightarrow> ret ()
            | Some c \<Rightarrow> call_plt lib (Fill_between (flatten pts')
                                        (minus_scalar (flatten truth) c)
                                        (plus_scalar (flatten truth) c))),
           call_plt lib (Legend (loc a)),
           call_plt lib (Grid (pair_1d_args.grid a)),
           when_do (pair_1d_args.save a) (call_plt lib (Savefig (pair_1d_args.path a))),
           call_plt lib Show]
   = do_all (map (call_plt lib) (pair_1d_plots a approxs pts' truth))"
  by (cases "confidence a"; cases "pair_1d_args.save a")
     (simp_all add: pair_1d_plots_def pair_1d_first_plots_def pair_1d_last_plots_def)

lemma plot_pair_1d_points:
  assumes "case pair_1d_args.points a of
             Some p \<Rightarrow> pts = p
           | None \<Rightarrow> shape pts = [200, 1] \<and> linspace 0 1 200 = Inr (data pts)"
  shows "(case pair_1d_args.points a of
            Some p \<Rightarrow> ret p
          | None \<Rightarrow> bind_run (lift (linspace 0 1 200))
                      (\<lambda>xs. lift (reshape_rows (array1 xs) 1))) = ret pts"
proof (cases "pair_1d_args.points a")
  case (Some p)
  with assms show ?thesis by simp
next
  case None
  obtain xs where xs: "linspace 0 1 200 = Inr xs" "length xs = 200"
    using linspace_length[of 200 0 1] by auto
  with None assms have "pts = \<lparr>shape = [200, 1], data = xs\<rparr>"
    by (cases pts) simp
  with None xs show ?thesis
    by (simp add: reshape_rows_def array1_def size_of_def lift_def ret_def)
qed

lemma plot_pair_1d_run:
  assumes "case pair_1d_args.points a of
             Some p \<Rightarrow> pts = p
           | None \<Rightarrow> shape pts = [200, 1] \<and> linspace 0 1 200 = Inr (data pts)"
  shows "plot_pair_1d lib sol m a =
           (case solve m pts None of
              Inl e \<Rightarrow> (Inl e, [Solve pts None])
            | Inr approxs \<Rightarrow>
                (case (case plot_coord a of
                         None \<Rightarrow> Inr pts
                       | Some c \<Rightarrow> take_column pts c) of
                   Inl e \<Rightarrow> (Inl e, [Solve pts None])
                 | Inr pts' \<Rightarrow>
                     (case sol pts' of
                        Inl e \<Rightarrow> (Inl e, [Solve pts None, Truth pts'])
                      | Inr truth \<Rightarrow>
                          (calls_outcome lib (pair_1d_plots a approxs pts' truth),
                           Solve pts None # Truth pts'
                             # map Plt (calls_made lib (pair_1d_plots a approxs pts' truth))))))"
proof -
  have sel: "(case plot_coord a of None \<Rightarrow> ret pts | Some c \<Rightarrow> lift (take_column pts c))
               = lift (case plot_coord a of None \<Rightarrow> Inr pts | Some c \<Rightarrow> take_column pts c)"
    by (simp add: ret_def lift_def split: option.splits)
  show ?thesis
    unfolding plot_pair_1d_def plot_pair_1d_points[OF assms] bind_run_ret sel Let_def
      plot_pair_1d_plots do_all_call_plt
    by (simp add: call_solve_def call_solution_def raise_err_def split: sum.splits)
qed

lemma pair_1d_points_exist:
  "\<exists>pts. (case pair_1d_args.points a of
            Some p \<Rightarrow> pts = p
          | None \<Rightarrow> shape pts = [200, 1] \<and> linspace 0 1 200 = Inr (data pts))"
proof (cases "pair_1d_args.points a")
  case (Some p)
  then show ?thesis by simp
next
  case None
  obtain xs where xs: "linspace 0 1 200 = Inr xs"
    using linspace_length[of 200 0 1] by auto
  with None show ?thesis
    by (intro exI[of _ "\<lparr>shape = [200, 1], data = xs\<rparr>"]) simp
qed

section \<open>The store\<close>

lemma alloc_all_store:
  "alloc_all s as = (rs, s') \<Longrightarrow>
     s' = s @ map data as
     \<and> rs = map (\<lambda>i. \<lparr>ref_shape = shape (as ! i), ref_buf = length s + i\<rparr>) [0..<length as]"
proof (induction as arbitrary: s rs s')
  case Nil
  then show ?case by simp
next
  case (Cons a as)
  obtain rs1 s1 where rec: "alloc_all (s @ [data a]) as = (rs1, s1)"
    by (cases "alloc_all (s @ [data a]) as")
  from Cons.IH[OF rec] have s1: "s1 = (s @ [data a]) @ map data as"
    and rs1: "rs1 = map (\<lambda>i. \<lparr>ref_shape = shape (as ! i), ref_buf = length (s @ [data a]) + i\<rparr>)
                        [0..<length as]"
    by simp_all
  from Cons.prems rec have s': "s' = s1"
    and rs: "rs = \<lparr>ref_shape = shape a, ref_buf = length s\<rparr> # rs1"
    by (simp_all add: alloc_def)
  have "map (\<lambda>i. \<lparr>ref_shape = shape ((a # as) ! i), ref_buf = length s + i\<rparr>)
            [0..<length (a # as)]
        = \<lparr>ref_shape = shape a, ref_buf = length s\<rparr> # rs1"
  proof -
    have "[0..<length (a # as)] = 0 # map Suc [0..<length as]"
      by (simp add: upt_conv_Cons map_Suc_upt del: upt_Suc)
    then show ?thesis unfolding rs1 by (simp add: o_def del: upt_Suc)
  qed
  with s' s1 rs show ?case by simp
qed

lemma alloc_all_read:
  assumes "alloc_all s as = (rs, s')"
  shows "map (read_array s') rs = as"
proof -
  from alloc_all_store[OF assms] have s': "s' = s @ map data as"
    and rs: "rs = map (\<lambda>i. \<lparr>ref_shape = shape (as ! i), ref_buf = length s + i\<rparr>)
                      [0..<length as]"
    by simp_all
  show ?thesis
    unfolding rs s'
    by (rule nth_equalityI) (simp_all add: read_array_def nth_append)
qed

lemma cart_prod_st_frame:
  assumes "cart_prod_st s arrs = (res, s')"
  shows "take (length s) s' = s
         \<and> contents s' res = cart_prod (map (\<lambda>r. data (read_array s r)) arrs)
         \<and> (\<forall>r. res = Inr r \<longrightarrow> length s \<le> ref_buf r)"
proof -
  let ?ins = "map (\<lambda>r. data (read_array s r)) arrs"
  obtain grids s1 where mg: "alloc_all s (meshgrid_ij ?ins) = (grids, s1)"
    by (cases "alloc_all s (meshgrid_ij ?ins)")
  from alloc_all_store[OF mg] have s1: "s1 = s @ map data (meshgrid_ij ?ins)" by simp
  from alloc_all_read[OF mg] have rd: "map (read_array s1) grids = meshgrid_ij ?ins" .
  show ?thesis
  proof (cases "stack_last (meshgrid_ij ?ins)")
    case (Inl e)
    with assms mg rd s1 show ?thesis
      by (auto simp: cart_prod_st_def meshgrid_ij_st_def stack_last_st_def contents_def
                     cart_prod_def)
  next
    case (Inr st)
    let ?r = "\<lparr>ref_shape = shape st, ref_buf = length s1\<rparr>"
    have st: "stack_last_st s1 grids = (Inr ?r, s1 @ [data st])"
      using Inr rd by (simp add: stack_last_st_def alloc_def)
    have rd2: "read_array (s1 @ [data st]) ?r = st"
      by (simp add: read_array_def)
    let ?k = "length arrs"
    have run: "cart_prod_st s arrs = reshape_rows_st (s1 @ [data st]) ?r ?k"
      using mg st by (simp add: cart_prod_st_def meshgrid_ij_st_def)
    have pure: "cart_prod ?ins = reshape_rows st ?k"
      using Inr by (simp add: cart_prod_def)
    have frame: "take (length s) (s1 @ [data st]) = s" by (simp add: s1)
    show ?thesis
    proof (cases "reshape_rows st ?k")
      case (Inl e)
      then have "cart_prod_st s arrs = (Inl e, s1 @ [data st])"
        using run rd2 by (simp add: reshape_rows_st_def)
      with assms Inl pure frame show ?thesis by (auto simp: contents_def)
    next
      case view: (Inr a)
      then have a: "data a = data st"
        by (auto simp: reshape_rows_def split: if_splits)
      from view have "cart_prod_st s arrs =
          (Inr \<lparr>ref_shape = shape a, ref_buf = length s1\<rparr>, s1 @ [data st])"
        using run rd2 by (simp add: reshape_rows_st_def)
      with assms have res: "res = Inr \<lparr>ref_shape = shape a, ref_buf = length s1\<rparr>"
        and s': "s' = s1 @ [data st]"
        by simp_all
      have "read_array s' \<lparr>ref_shape = shape a, ref_buf = length s1\<rparr> = a"
        using a by (simp add: read_array_def s')
      with res s' view pure frame show ?thesis
        by (auto simp: contents_def s1)
    qed
  qed
qed

section \<open>The Cartesian product\<close>

text \<open>
  C1. Called with \<open>k \<ge> 1\<close> one-dimensional sequences of lengths \<open>n1..nk\<close>, \<open>cart_prod\<close>
  returns (it does not raise) a two-dimensional array of shape \<open>(n1*...*nk, k)\<close>: it has
  \<open>n1*...*nk\<close> rows, each of \<open>k\<close> entries, and \<open>n1*...*nk*k\<close> entries in all.
\<close>

theorem cart_prod_shape:
  assumes "arrs \<noteq> []"
  shows "\<exists>a. cart_prod arrs = Inr a
             \<and> shape a = [prod_list (map length arrs), length arrs]
             \<and> length (data a) = prod_list (map length arrs) * length arrs
             \<and> length (rows_of a) = prod_list (map length arrs)
             \<and> list_all (\<lambda>r. length r = length arrs) (rows_of a)"
proof -
  let ?a = "\<lparr>shape = [prod_list (map length arrs), length arrs],
             data = concat (nested_loop_rows arrs)\<rparr>"
  have "cart_prod arrs = Inr ?a" using assms by (rule cart_prod_eq)
  moreover have "length (data ?a) = prod_list (map length arrs) * length arrs"
    using length_concat_uniform[of "nested_loop_rows arrs" "length arrs"]
    by (simp add: length_row_nested length_nested_loop_rows)
  moreover have "rows_of ?a = nested_loop_rows arrs" by (rule rows_of_cart_prod_data)
  moreover have "list_all (\<lambda>r. length r = length arrs) (nested_loop_rows arrs)"
    by (simp add: list_all_iff length_row_nested)
  ultimately show ?thesis by (simp add: length_nested_loop_rows)
qed

theorem cart_prod_shape_witness:
  "[[1, 2, 3], [10, 20 :: int]] \<noteq> []
   \<and> (\<exists>a. cart_prod [[1, 2, 3], [10, 20 :: int]] = Inr a \<and> shape a = [6, 2]
          \<and> length (data a) = 12 \<and> length (rows_of a) = 6)"
  using cart_prod_shape[of "[[1, 2, 3], [10, 20 :: int]]"] by auto

text \<open>
  C2. Called with at least one sequence, \<open>cart_prod\<close> returns the array whose rows are
  the tuples of the Cartesian product in the order of nested loops with the first array
  outermost; every row has one component per input array, the \<open>i\<close>-th drawn from the
  \<open>i\<close>-th array. For \<open>cart_prod([1,2], [10,20])\<close> these are the rows \<open>(1,10), (1,20),
  (2,10), (2,20)\<close>, in that order.
\<close>

theorem cart_prod_rows_ij_order:
  assumes "arrs \<noteq> []"
  shows "\<exists>a. cart_prod arrs = Inr a
             \<and> rows_of a = nested_loop_rows arrs
             \<and> (\<forall>r \<in> set (rows_of a). length r = length arrs
                    \<and> (\<forall>i < length arrs. r ! i \<in> set (arrs ! i)))"
proof -
  let ?a = "\<lparr>shape = [prod_list (map length arrs), length arrs],
             data = concat (nested_loop_rows arrs)\<rparr>"
  have "cart_prod arrs = Inr ?a" using assms by (rule cart_prod_eq)
  moreover have "rows_of ?a = nested_loop_rows arrs" by (rule rows_of_cart_prod_data)
  ultimately show ?thesis
    by (auto simp: length_row_nested nth_row_nested)
qed

theorem cart_prod_rows_example:
  "[[1, 2], [10, 20 :: int]] \<noteq> []
   \<and> (\<exists>a. cart_prod [[1, 2], [10, 20 :: int]] = Inr a
          \<and> rows_of a = [[1, 10], [1, 20], [2, 10], [2, 20]])"
  using cart_prod_rows_ij_order[of "[[1, 2], [10, 20 :: int]]"] by auto

text \<open>
  C7. Called with a single one-dimensional array \<open>a\<close>, \<open>cart_prod\<close> returns \<open>a\<close> as a
  single-column matrix: shape \<open>(len(a), 1)\<close>, the same entries in the same order.
\<close>

theorem cart_prod_single:
  "cart_prod [a] = Inr \<lparr>shape = [length a, 1], data = a\<rparr>
   \<and> rows_of \<lparr>shape = [length a, 1], data = a\<rparr> = map (\<lambda>x. [x]) a"
proof -
  have rows: "nested_loop_rows [a] = map (\<lambda>x. [x]) a"
    by (induction a) simp_all
  have flat: "concat (map (\<lambda>x. [x]) a) = a"
    by (induction a) simp_all
  have "cart_prod [a] = Inr \<lparr>shape = [length a, 1], data = a\<rparr>"
    using cart_prod_eq[of "[a]"] by (simp add: rows flat)
  moreover have "rows_of \<lparr>shape = [length a, 1], data = a\<rparr> = map (\<lambda>x. [x]) a"
    using rows_of_cart_prod_data[of "[a]"] by (simp add: rows flat)
  ultimately show ?thesis by simp
qed

theorem cart_prod_single_example:
  "cart_prod [[3, 1, 2 :: int]] = Inr \<lparr>shape = [3, 1], data = [3, 1, 2]\<rparr>
   \<and> rows_of \<lparr>shape = [3, 1], data = [3, 1, 2 :: int]\<rparr> = [[3], [1], [2]]"
  using cart_prod_single[of "[3, 1, 2 :: int]"] by (simp add: eval_nat_numeral)

section \<open>What the plotting functions call\<close>

text \<open>
  C3. Called with a mode other than \<open>imshow\<close>, \<open>contourf\<close> and \<open>3d_view\<close>, \<open>plot_2d\<close>
  never invokes \<open>model.solve\<close> nor any drawing call. With \<open>save\<close> false it invokes
  nothing at all and returns normally. With \<open>save\<close> true its one call is
  \<open>plt.savefig(path)\<close>, and it returns normally unless that call raises, in which case
  the exception reaches the caller.
\<close>

theorem plot_2d_unrecognized_mode:
  assumes "plot_2d_args.mode a \<notin> {''imshow'', ''contourf'', ''3d_view''}"
  shows "plot_2d lib m a =
           (if plot_2d_args.save a
            then ((case lib (Savefig (plot_2d_args.path a)) of
                     Some e \<Rightarrow> Inl e | None \<Rightarrow> Inr ()),
                  [Plt (Savefig (plot_2d_args.path a))])
            else (Inr (), []))"
proof -
  have skipped: "plot_2d_args.mode a \<noteq> ''imshow''"
    "plot_2d_args.mode a \<notin> {''contourf'', ''3d_view''}"
    "plot_2d_args.mode a \<notin> {''imshow'', ''contourf''}"
    "plot_2d_args.mode a \<notin> {''3d_view'', ''contourf''}"
    using assms by auto
  have "plot_2d lib m a =
          bind_run (when_do (plot_2d_args.save a)
                      (call_plt lib (Savefig (plot_2d_args.path a))))
            (\<lambda>_. ret ())"
    unfolding plot_2d_def using skipped by simp
  then show ?thesis
    by (simp add: when_do_def call_plt_def ret_def split: option.splits)
qed

text \<open>
  With the mode \<open>scatter\<close>, \<open>save=True\<close> and a library that does not raise, the run
  consists of the call to \<open>savefig\<close>.
\<close>

theorem plot_2d_unrecognized_mode_witness:
  "plot_2d_args.mode unrecognized_saving \<notin> {''imshow'', ''contourf'', ''3d_view''}
   \<and> plot_2d no_fail zeros_model unrecognized_saving
       = (Inr (), [Plt (Savefig ''approximation.png'')])"
  using plot_2d_unrecognized_mode[of unrecognized_saving no_fail zeros_model]
  by (simp add: unrecognized_saving_def plot_2d_defaults_def no_fail_def)

text \<open>
  The claim without the condition on \<open>save\<close> fails: with the mode \<open>scatter\<close>,
  \<open>save=True\<close> and a path that \<open>savefig\<close> cannot write, a call into the plotting library
  is made and its exception is raised.
\<close>

theorem plot_2d_unrecognized_mode_raises:
  "plot_2d_args.mode unrecognized_bad_path \<notin> {''imshow'', ''contourf'', ''3d_view''}
   \<and> plot_2d savefig_fails zeros_model unrecognized_bad_path
       = (Inl (LibraryError ''FileNotFoundError''), [Plt (Savefig ''/missing/out.png'')])"
proof -
  have "plot_2d_args.mode unrecognized_bad_path \<notin> {''imshow'', ''contourf'', ''3d_view''}"
    by (simp add: unrecognized_bad_path_def plot_2d_defaults_def)
  moreover have "plot_2d savefig_fails zeros_model unrecognized_bad_path
       = (Inl (LibraryError ''FileNotFoundError''), [Plt (Savefig ''/missing/out.png'')])"
    by code_simp
  ultimately show ?thesis by simp
qed

text \<open>
  C4. Called in \<open>imshow\<close> mode without a grid, \<open>plot_2d\<close> builds its grid from \<open>n\<close> points
  per axis, where \<open>n\<close> is \<open>num_points\<close> when that is a non-zero integer and 80 when it is
  \<open>None\<close> or 0. For \<open>n \<ge> 0\<close> \<open>model.solve\<close> is invoked exactly once, with \<open>fetches\<close> and a
  grid of \<open>n * n\<close> rows and 2 columns, whatever happens afterwards; for a negative \<open>n\<close>
  the call raises \<open>ValueError\<close> before anything is invoked.
\<close>

theorem plot_2d_imshow_solve_once:
  assumes "plot_2d_args.mode a = ''imshow''"
    and "plot_2d_args.grid a = None"
    and "n = (case plot_2d_args.num_points a of
                None \<Rightarrow> 80
              | Some k \<Rightarrow> if k = 0 then 80 else k)"
  shows "(0 \<le> n \<longrightarrow>
            (\<exists>g. solve_calls (snd (plot_2d lib m a)) = [(g, plot_2d_args.fetches a)]
                \<and> shape g = [nat n * nat n, 2]))
         \<and> (n < 0 \<longrightarrow> plot_2d lib m a = (Inl ValueError, []))"
proof -
  have n: "n = or_default (plot_2d_args.num_points a) 80"
    using assms(3) by (simp add: or_default_def)
  show ?thesis
    using plot_2d_imshow_calls[OF assms(1,2), of lib m]
          plot_2d_imshow_negative[OF assms(1,2), of lib m]
    by (simp add: n)
qed

text \<open>
  With \<open>num_points=2\<close> \<open>solve\<close> is invoked once, on a grid of 4 rows.
\<close>

theorem plot_2d_imshow_solve_once_witness:
  "plot_2d_args.mode two_by_two = ''imshow''
   \<and> plot_2d_args.grid two_by_two = None
   \<and> plot_2d_args.num_points two_by_two = Some 2
   \<and> (\<exists>g. solve_calls (snd (plot_2d no_fail zeros_model two_by_two)) = [(g, None)]
          \<and> shape g = [4, 2])"
proof -
  have args: "plot_2d_args.mode two_by_two = ''imshow''"
    "plot_2d_args.grid two_by_two = None"
    "plot_2d_args.num_points two_by_two = Some 2"
    "plot_2d_args.fetches two_by_two = None"
    by (simp_all add: two_by_two_def plot_2d_defaults_def)
  have "\<exists>g. solve_calls (snd (plot_2d no_fail zeros_model two_by_two))
               = [(g, plot_2d_args.fetches two_by_two)]
             \<and> shape g = [nat 2 * nat 2, 2]"
    using plot_2d_imshow_solve_once[OF args(1,2), of 2 no_fail zeros_model] args(3)
    by simp
  then show ?thesis using args by simp
qed

text \<open>
  With \<open>num_points=0\<close> the row count is not \<open>num_points ** 2 = 0\<close>: since \<open>0 or 80\<close> is 80,
  the grid that \<open>solve\<close> receives has 6400 rows.
\<close>

theorem plot_2d_imshow_zero_points:
  "plot_2d_args.mode zero_points = ''imshow''
   \<and> plot_2d_args.grid zero_points = None
   \<and> plot_2d_args.num_points zero_points = Some 0
   \<and> map (\<lambda>c. shape (fst c)) (solve_calls (snd (plot_2d no_fail zeros_model zero_points)))
       = [[6400, 2]]"
proof -
  have args: "plot_2d_args.mode zero_points = ''imshow''"
    "plot_2d_args.grid zero_points = None"
    "plot_2d_args.num_points zero_points = Some 0"
    by (simp_all add: zero_points_def plot_2d_defaults_def)
  have n: "or_default (plot_2d_args.num_points zero_points) 80 = 80"
    by (simp add: args or_default_def)
  have "\<exists>g. solve_calls (snd (plot_2d no_fail zeros_model zero_points))
               = [(g, plot_2d_args.fetches zero_points)]
             \<and> shape g = [nat 80 * nat 80, 2]"
    using plot_2d_imshow_calls[OF args(1,2), of no_fail zeros_model] by (simp add: n)
  then obtain g where "solve_calls (snd (plot_2d no_fail zeros_model zero_points))
               = [(g, plot_2d_args.fetches zero_points)]" "shape g = [6400, 2]"
    by auto
  then show ?thesis using args by simp
qed

text \<open>
  C10. Called in \<open>contourf\<close> or \<open>3d_view\<close> mode with a grid, \<open>plot_2d\<close> invokes
  \<open>model.solve(grid)\<close> and nothing else, and never returns normally. When \<open>solve\<close>
  returns, the call fails with \<open>UnboundLocalError\<close>, since \<open>xs\<close> and \<open>ys\<close> are bound only
  on the branch without a grid; when \<open>solve\<close> raises, the call fails with the exception
  of \<open>solve\<close>, which comes before \<open>xs\<close> is read. No plotting call is made.
\<close>

theorem plot_2d_given_grid_fails:
  assumes "plot_2d_args.mode a \<in> {''contourf'', ''3d_view''}"
    and "plot_2d_args.grid a = Some g"
  shows "plot_2d lib m a =
           ((case solve m g None of
               Inl e \<Rightarrow> Inl e
             | Inr v \<Rightarrow> Inl UnboundLocalError),
            [Solve g None])"
proof (cases "solve m g None")
  case (Inl e)
  with plot_2d_given_grid[OF assms, of lib m] show ?thesis by simp
next
  case (Inr v)
  with plot_2d_given_grid[OF assms, of lib m] show ?thesis by simp
qed

text \<open>
  In \<open>contourf\<close> mode with a grid of two points and a model that answers, the run is the
  call to \<open>solve\<close> followed by \<open>UnboundLocalError\<close>.
\<close>

theorem plot_2d_given_grid_fails_witness:
  "plot_2d_args.mode contourf_given_grid \<in> {''contourf'', ''3d_view''}
   \<and> plot_2d_args.grid contourf_given_grid = Some two_points
   \<and> solve zeros_model two_points None = Inr \<lparr>shape = [2], data = [0, 0]\<rparr>
   \<and> plot_2d no_fail zeros_model contourf_given_grid
       = (Inl UnboundLocalError, [Solve two_points None])"
proof -
  have args: "plot_2d_args.mode contourf_given_grid \<in> {''contourf'', ''3d_view''}"
    "plot_2d_args.grid contourf_given_grid = Some two_points"
    by (simp_all add: contourf_given_grid_def plot_2d_defaults_def)
  have solved: "solve zeros_model two_points None = Inr \<lparr>shape = [2], data = [0, 0]\<rparr>"
    by (simp add: zeros_model_def two_points_def first_dim_def array1_def eval_nat_numeral)
  from plot_2d_given_grid_fails[OF args, of no_fail zeros_model] solved
  have "plot_2d no_fail zeros_model contourf_given_grid
          = (Inl UnboundLocalError, [Solve two_points None])"
    by simp
  with args solved show ?thesis by simp
qed

text \<open>
  Not every such call fails with \<open>UnboundLocalError\<close>: with a model whose \<open>solve\<close>
  raises, the call fails with that exception, before \<open>xs\<close> is read.
\<close>

theorem plot_2d_given_grid_solve_raises:
  "plot_2d_args.mode contourf_given_grid \<in> {''contourf'', ''3d_view''}
   \<and> plot_2d_args.grid contourf_given_grid = Some two_points
   \<and> solve failing_model two_points None = Inl (LibraryError ''RuntimeError'')
   \<and> plot_2d no_fail failing_model contourf_given_grid
       = (Inl (LibraryError ''RuntimeError''), [Solve two_points None])"
proof -
  have "plot_2d_args.mode contourf_given_grid \<in> {''contourf'', ''3d_view''}"
    "plot_2d_args.grid contourf_given_grid = Some two_points"
    by (simp_all add: contourf_given_grid_def plot_2d_defaults_def)
  moreover have "solve failing_model two_points None = Inl (LibraryError ''RuntimeError'')"
    by (simp add: failing_model_def)
  moreover have "plot_2d no_fail failing_model contourf_given_grid
       = (Inl (LibraryError ''RuntimeError''), [Solve two_points None])"
    by code_simp
  ultimately show ?thesis by simp
qed

text \<open>
  C5. In every call of \<open>plot_sections_2d\<close> and of \<open>plot_sections_3d\<close> the invocations
  of \<open>model.solve\<close> are, in order, those for the first \<open>k\<close> timestamps, one each, for
  some \<open>k\<close>; the argument for timestamp \<open>t\<close> is the shared spatial grid with one more
  column holding \<open>t\<close>. When the call returns normally, \<open>k\<close> is the number of timestamps:
  \<open>solve\<close> was invoked exactly once per timestamp. For \<open>plot_sections_2d\<close> the grid is
  the caller's points, or 100 points by default, as one column, and \<open>fetches\<close> is passed
  on. For \<open>plot_sections_3d\<close> with \<open>num_points \<ge> 0\<close> the grid is \<open>cart_prod(xs, ys)\<close>, of
  \<open>num_points ** 2\<close> rows and 2 columns, in every call, returning or not, and \<open>fetches\<close>
  is not passed; with a negative \<open>num_points\<close> there is no grid: the call raises
  \<open>ValueError\<close> before anything is invoked.
\<close>

theorem sections_solve_per_timestamp:
  "(\<exists>pts k.
      (case sections_2d_args.points a2 of
         Some p \<Rightarrow> pts = p
       | None \<Rightarrow> shape pts = [100, 1] \<and> linspace 0 1 100 = Inr (data pts))
      \<and> k \<le> length (sections_2d_args.timestamps a2)
      \<and> solve_calls (snd (plot_sections_2d lib m a2))
          = map (\<lambda>t. (append_column (column_of pts) t, sections_2d_args.fetches a2))
                (take k (sections_2d_args.timestamps a2))
      \<and> (fst (plot_sections_2d lib m a2) = Inr ()
           \<longrightarrow> k = length (sections_2d_args.timestamps a2)))
   \<and> (sections_3d_points a3 < 0
        \<longrightarrow> plot_sections_3d lib m a3 = (Inl ValueError, []))
   \<and> (0 \<le> sections_3d_points a3 \<longrightarrow>
        (\<exists>xs ys g k.
           linspace (fst (sections_3d_args.xlim a3)) (snd (sections_3d_args.xlim a3))
             (sections_3d_points a3) = Inr xs
         \<and> linspace (fst (sections_3d_args.ylim a3)) (snd (sections_3d_args.ylim a3))
             (sections_3d_points a3) = Inr ys
         \<and> cart_prod [xs, ys] = Inr g
         \<and> shape g = [nat (sections_3d_points a3) * nat (sections_3d_points a3), 2]
         \<and> k \<le> length (sections_3d_args.timestamps a3)
         \<and> solve_calls (snd (plot_sections_3d lib m a3))
             = map (\<lambda>t. (append_column g t, None)) (take k (sections_3d_args.timestamps a3))
         \<and> (fst (plot_sections_3d lib m a3) = Inr ()
              \<longrightarrow> k = length (sections_3d_args.timestamps a3))))"
  (is "?one_space \<and> ?no_grid \<and> ?two_space")
proof (intro conjI)
  show ?one_space by (rule plot_sections_2d_calls)
next
  show ?no_grid using plot_sections_3d_negative by blast
next
  show ?two_space using plot_sections_3d_grid by blast
qed

text \<open>
  Two timestamps on the default 2 by 3 grid: both functions return normally and invoke
  \<open>solve\<close> twice, on the grid extended by the column of 0 and by the column of 1.
\<close>

theorem sections_solve_per_timestamp_witness:
  "fst (plot_sections_2d no_fail zeros_model two_sections) = Inr ()
   \<and> solve_calls (snd (plot_sections_2d no_fail zeros_model two_sections))
       = [(append_column (column_of two_points) 0, None),
          (append_column (column_of two_points) 1, None)]
   \<and> sections_3d_points two_sections_3d = 1
   \<and> fst (plot_sections_3d no_fail zeros_model two_sections_3d) = Inr ()
   \<and> (\<exists>g. cart_prod [[0], [0 :: real]] = Inr g
          \<and> shape g = [1, 2]
          \<and> solve_calls (snd (plot_sections_3d no_fail zeros_model two_sections_3d))
              = [(append_column g 0, None), (append_column g 1, None)])"
proof -
  have ok2: "fst (plot_sections_2d no_fail zeros_model two_sections) = Inr ()"
    by code_simp
  have ok3: "fst (plot_sections_3d no_fail zeros_model two_sections_3d) = Inr ()"
    by code_simp
  have args2: "sections_2d_args.points two_sections = Some two_points"
    "sections_2d_args.timestamps two_sections = [0, 1]"
    "sections_2d_args.fetches two_sections = None"
    by (simp_all add: two_sections_def sections_2d_defaults_def)
  have args3: "sections_3d_args.timestamps two_sections_3d = [0, 1]"
    "sections_3d_args.xlim two_sections_3d = (0, 1)"
    "sections_3d_args.ylim two_sections_3d = (0, 1)"
    "sections_3d_points two_sections_3d = 1"
    by (simp_all add: two_sections_3d_def sections_3d_defaults_def sections_3d_points_def)
  have lin: "linspace 0 1 1 = Inr [0]" by (simp add: linspace_def)
  from sections_solve_per_timestamp[of two_sections no_fail zeros_model two_sections_3d]
  obtain pts k g k' where
    pts: "pts = two_points"
    and k: "solve_calls (snd (plot_sections_2d no_fail zeros_model two_sections))
             = map (\<lambda>t. (append_column (column_of pts) t, None)) (take k [0, 1])"
           "k = 2"
    and g: "solve_calls (snd (plot_sections_3d no_fail zeros_model two_sections_3d))
             = map (\<lambda>t. (append_column g t, None)) (take k' [0, 1])"
           "k' = 2" "cart_prod [[0], [0 :: real]] = Inr g" "shape g = [1, 2]"
    using ok2 ok3 by (auto simp: args2 args3 lin)
  then show ?thesis using ok2 ok3 args3(4) by auto
qed

text \<open>
  The claim fails for calls that do not return normally: with seven timestamps and the
  default \<open>grid_size=(2, 3)\<close> the subscript \<open>axes[2, 0]\<close> raises \<open>IndexError\<close> for the
  seventh timestamp, before \<open>solve\<close> is invoked for it. \<open>solve\<close> was invoked six times.
\<close>

theorem sections_seven_timestamps:
  "length (sections_2d_args.timestamps seven_sections) = 7
   \<and> sections_2d_args.grid_size seven_sections = (2, 3)
   \<and> fst (plot_sections_2d no_fail zeros_model seven_sections) = Inl IndexError
   \<and> length (solve_calls (snd (plot_sections_2d no_fail zeros_model seven_sections))) = 6"
proof -
  have "length (sections_2d_args.timestamps seven_sections) = 7"
    "sections_2d_args.grid_size seven_sections = (2, 3)"
    by (simp_all add: seven_sections_def sections_2d_defaults_def)
  moreover have "fst (plot_sections_2d no_fail zeros_model seven_sections) = Inl IndexError"
    by code_simp
  moreover have
    "length (solve_calls (snd (plot_sections_2d no_fail zeros_model seven_sections))) = 6"
    by code_simp
  ultimately show ?thesis by simp
qed

text \<open>
  C8. Every plotting function propagates errors: in a run of \<open>plot_loss\<close>,
  \<open>plot_pair_1d\<close>, \<open>plot_2d\<close>, \<open>plot_sections_2d\<close> or \<open>plot_sections_3d\<close>, a call to
  \<open>model.solve\<close>, to the ground-truth function or to the plotting library that raises is
  the last call of the run, and the run ends with that exception. No exception is caught,
  no call is made again, and nothing runs after the failure.
\<close>

theorem errors_propagate:
  "propagates lib sol m (plot_loss lib loss color)
   \<and> propagates lib sol m (plot_pair_1d lib sol m a1)
   \<and> propagates lib sol m (plot_2d lib m a2)
   \<and> propagates lib sol m (plot_sections_2d lib m a3)
   \<and> propagates lib sol m (plot_sections_3d lib m a4)"
  by (intro conjI propagates_plot_loss propagates_plot_pair_1d propagates_plot_2d
        propagates_plot_sections_2d propagates_plot_sections_3d)

text \<open>
  With a library whose \<open>colorbar\<close> raises, \<open>plot_2d\<close> in \<open>imshow\<close> mode ends with that
  exception, and \<open>colorbar\<close> is its last call.
\<close>

theorem errors_propagate_witness:
  "propagates colorbar_fails identity_solution zeros_model
     (plot_2d colorbar_fails zeros_model two_by_two)
   \<and> last (snd (plot_2d colorbar_fails zeros_model two_by_two)) = Plt Colorbar
   \<and> raises colorbar_fails identity_solution zeros_model (Plt Colorbar)
       = Some (LibraryError ''RuntimeError'')
   \<and> fst (plot_2d colorbar_fails zeros_model two_by_two) = Inl (LibraryError ''RuntimeError'')"
proof -
  have "last (snd (plot_2d colorbar_fails zeros_model two_by_two)) = Plt Colorbar"
    by code_simp
  moreover have "raises colorbar_fails identity_solution zeros_model (Plt Colorbar)
       = Some (LibraryError ''RuntimeError'')"
    by (simp add: raises_def colorbar_fails_def)
  moreover have "snd (plot_2d colorbar_fails zeros_model two_by_two) \<noteq> []"
    by code_simp
  ultimately show ?thesis
    using errors_propagate[of colorbar_fails identity_solution zeros_model two_points
                              "''powderblue''" pair_with_band two_by_two two_sections
                              two_sections_3d]
    by (simp add: propagates_def)
qed




section \<open>\<open>cart_prod\<close> leaves its arguments alone\<close>

text \<open>
  C6. \<open>cart_prod\<close> is pure: a call changes no buffer that existed before it (its
  arguments included), its result lies in a buffer allocated by the call, and the contents
  of the result are the function \<open>cart_prod\<close> of the contents of the arguments. So two
  calls on arguments with the same contents, in whatever stores, return arrays with the
  same contents.
\<close>

theorem cart_prod_pure:
  assumes "cart_prod_st s arrs = (res, s')"
    and "cart_prod_st t arrs' = (res', t')"
    and "map (read_array s) arrs = map (read_array t) arrs'"
  shows "take (length s) s' = s
         \<and> (\<forall>r. res = Inr r \<longrightarrow> length s \<le> ref_buf r)
         \<and> contents s' res = cart_prod (map (\<lambda>r. data (read_array s r)) arrs)
         \<and> contents s' res = contents t' res'"
proof -
  have "map (\<lambda>r. data (read_array s r)) arrs = map data (map (read_array s) arrs)"
    by simp
  also have "\<dots> = map data (map (read_array t) arrs')" by (simp only: assms(3))
  also have "\<dots> = map (\<lambda>r. data (read_array t r)) arrs'" by simp
  finally show ?thesis
    using cart_prod_st_frame[OF assms(1)] cart_prod_st_frame[OF assms(2)] by simp
qed

text \<open>
  The same two arrays at different places of two stores: both calls append three buffers,
  leave the stores otherwise as they were, and return equal arrays.
\<close>

theorem cart_prod_pure_witness:
  "cart_prod_st store_one [\<lparr>ref_shape = [2], ref_buf = 1\<rparr>, \<lparr>ref_shape = [2], ref_buf = 2\<rparr>]
     = (Inr \<lparr>ref_shape = [4, 2], ref_buf = 5\<rparr>,
        store_one @ [[1, 1, 2, 2], [10, 20, 10, 20], [1, 10, 1, 20, 2, 10, 2, 20]])
   \<and> cart_prod_st store_two [\<lparr>ref_shape = [2], ref_buf = 0\<rparr>, \<lparr>ref_shape = [2], ref_buf = 1\<rparr>]
     = (Inr \<lparr>ref_shape = [4, 2], ref_buf = 4\<rparr>,
        store_two @ [[1, 1, 2, 2], [10, 20, 10, 20], [1, 10, 1, 20, 2, 10, 2, 20]])
   \<and> contents (store_one @ [[1, 1, 2, 2], [10, 20, 10, 20], [1, 10, 1, 20, 2, 10, 2, 20]])
        (Inr \<lparr>ref_shape = [4, 2], ref_buf = 5\<rparr>)
     = contents (store_two @ [[1, 1, 2, 2], [10, 20, 10, 20], [1, 10, 1, 20, 2, 10, 2, 20]])
        (Inr \<lparr>ref_shape = [4, 2], ref_buf = 4\<rparr>)"
proof -
  have one: "cart_prod_st store_one
       [\<lparr>ref_shape = [2], ref_buf = 1\<rparr>, \<lparr>ref_shape = [2], ref_buf = 2\<rparr>]
     = (Inr \<lparr>ref_shape = [4, 2], ref_buf = 5\<rparr>,
        store_one @ [[1, 1, 2, 2], [10, 20, 10, 20], [1, 10, 1, 20, 2, 10, 2, 20]])"
    by code_simp
  have two: "cart_prod_st store_two
       [\<lparr>ref_shape = [2], ref_buf = 0\<rparr>, \<lparr>ref_shape = [2], ref_buf = 1\<rparr>]
     = (Inr \<lparr>ref_shape = [4, 2], ref_buf = 4\<rparr>,
        store_two @ [[1, 1, 2, 2], [10, 20, 10, 20], [1, 10, 1, 20, 2, 10, 2, 20]])"
    by code_simp
  have same: "map (read_array store_one)
                [\<lparr>ref_shape = [2], ref_buf = 1\<rparr>, \<lparr>ref_shape = [2], ref_buf = 2\<rparr>]
            = map (read_array store_two)
                [\<lparr>ref_shape = [2], ref_buf = 0\<rparr>, \<lparr>ref_shape = [2], ref_buf = 1\<rparr>]"
    by (simp add: read_array_def store_one_def store_two_def)
  have eq: "contents (store_one @ [[1, 1, 2, 2], [10, 20, 10, 20], [1, 10, 1, 20, 2, 10, 2, 20]])
        (Inr \<lparr>ref_shape = [4, 2], ref_buf = 5\<rparr>)
     = contents (store_two @ [[1, 1, 2, 2], [10, 20, 10, 20], [1, 10, 1, 20, 2, 10, 2, 20]])
        (Inr \<lparr>ref_shape = [4, 2], ref_buf = 4\<rparr>)"
    using cart_prod_pure[OF one two same] by blast
  show ?thesis by (intro conjI one two eq)
qed

end
